theory Spec2Isabelle
  imports Main
begin

section \<open>Values and exceptions\<close>

text \<open>
  The program handles values decoded from JSON bodies: \<open>response.json()\<close> yields
  \<open>None\<close>, booleans, numbers, strings, lists and dictionaries. Strings are sequences of
  characters with code points 0 to 255; a dictionary is kept as its list of items in
  insertion order, looked up with \<open>map_of\<close>.
\<close>

datatype json =
    JNull
  | JBool bool
  | JNum int
  | JStr string
  | JArr "json list"
  | JObj "(string \<times> json) list"

text \<open>
  The exceptions the program can meet. All of them derive from Python's \<open>Exception\<close>
  except \<open>KeyboardInterrupt\<close>, which derives from \<open>BaseException\<close> only and passes
  through \<open>except Exception\<close>.
\<close>

datatype exn =
    RequestException
  | HTTPError nat
  | JSONDecodeError
  | AttributeError
  | TypeError
  | KeyError string
  | OSError
  | UnicodeEncodeError
  | KeyboardInterrupt

fun is_Exception :: "exn \<Rightarrow> bool" where
  "is_Exception KeyboardInterrupt = False"
| "is_Exception _ = True"

section \<open>The operations of Python the program uses\<close>

text \<open>\<open>obj.get(key, default)\<close>: only a dictionary has a \<open>get\<close> attribute.\<close>

fun dict_get :: "json \<Rightarrow> string \<Rightarrow> json \<Rightarrow> exn + json" where
  "dict_get (JObj kvs) k d = Inr (case map_of kvs k of Some v \<Rightarrow> v | None \<Rightarrow> d)"
| "dict_get _ k d = Inl AttributeError"

text \<open>\<open>obj[key]\<close> with a string key: a missing key of a dictionary raises \<open>KeyError\<close>,
  every other value raises \<open>TypeError\<close>.\<close>

fun subscript :: "json \<Rightarrow> string \<Rightarrow> exn + json" where
  "subscript (JObj kvs) k = (case map_of kvs k of Some v \<Rightarrow> Inr v | None \<Rightarrow> Inl (KeyError k))"
| "subscript _ k = Inl TypeError"

text \<open>Iteration (\<open>for x in obj\<close>): a list yields its elements, a string its characters as
  one-character strings, a dictionary its keys; nothing else is iterable.\<close>

fun py_iter :: "json \<Rightarrow> exn + json list" where
  "py_iter (JArr xs) = Inr xs"
| "py_iter (JStr s) = Inr (map (\<lambda>c. JStr [c]) s)"
| "py_iter (JObj kvs) = Inr (map (\<lambda>kv. JStr (fst kv)) kvs)"
| "py_iter _ = Inl TypeError"

text \<open>\<open>sep.join(items)\<close>: every item must be a string.\<close>

fun as_strs :: "json list \<Rightarrow> string list option" where
  "as_strs [] = Some []"
| "as_strs (JStr s # xs) = (case as_strs xs of Some ss \<Rightarrow> Some (s # ss) | None \<Rightarrow> None)"
| "as_strs (_ # xs) = None"

fun join :: "string \<Rightarrow> string list \<Rightarrow> string" where
  "join sep [] = []"
| "join sep [s] = s"
| "join sep (s # t # ss) = s @ sep @ join sep (t # ss)"

definition str_join :: "string \<Rightarrow> json list \<Rightarrow> exn + string" where
  "str_join sep xs = (case as_strs xs of Some ss \<Rightarrow> Inr (join sep ss) | None \<Rightarrow> Inl TypeError)"

text \<open>
  \<open>re.search(pattern, text, re.IGNORECASE)\<close> for a pattern that is an alternation of
  lower-case words: the search succeeds when one of the words occurs in the text, letters
  compared without regard to case. Among the code points 0 to 255 the only characters
  that match a letter of these words are the letter itself and its ASCII capital, so the
  text is searched after its ASCII capitals are made lower case. A text that is not a
  string raises \<open>TypeError\<close>.
\<close>

definition lower_char :: "char \<Rightarrow> char" where
  "lower_char c =
     (case map_of (zip ''ABCDEFGHIJKLMNOPQRSTUVWXYZ'' ''abcdefghijklmnopqrstuvwxyz'') c of
        Some l \<Rightarrow> l | None \<Rightarrow> c)"

fun starts_with :: "string \<Rightarrow> string \<Rightarrow> bool" where
  "starts_with [] s = True"
| "starts_with (p # ps) [] = False"
| "starts_with (p # ps) (c # cs) = (p = c \<and> starts_with ps cs)"

fun occurs_in :: "string \<Rightarrow> string \<Rightarrow> bool" where
  "occurs_in p [] = (p = [])"
| "occurs_in p (c # cs) = (starts_with p (c # cs) \<or> occurs_in p cs)"

definition matches_any :: "string list \<Rightarrow> string \<Rightarrow> bool" where
  "matches_any alternatives s = list_ex (\<lambda>p. occurs_in p (map lower_char s)) alternatives"

fun re_search :: "string list \<Rightarrow> json \<Rightarrow> exn + bool" where
  "re_search alternatives (JStr s) = Inr (matches_any alternatives s)"
| "re_search alternatives _ = Inl TypeError"

section \<open>The classifier: \<open>extract_paper_data\<close>\<close>

definition academic_pattern :: "string list" where
  "academic_pattern = [''university'', ''institute'', ''college'', ''lab'']"

definition company_pattern :: "string list" where
  "company_pattern = [''pharma'', ''biotech'']"

text \<open>The six columns of a row. The four copied columns hold whatever value the record
  has under the key; the two joined columns are strings.\<close>

record row =
  PubmedID :: json
  Title :: json
  Publication_Date :: json
  Non_academic_Authors :: string
  Company_Affiliations :: string
  Corresponding_Author_Email :: json

text \<open>Sequencing of steps that may raise: the first exception ends the computation.\<close>

definition and_then :: "exn + 'a \<Rightarrow> ('a \<Rightarrow> exn + 'b) \<Rightarrow> exn + 'b" where
  "and_then r f = (case r of Inl e \<Rightarrow> Inl e | Inr x \<Rightarrow> f x)"

text \<open>The first comprehension: \<open>author["name"]\<close> of every author whose affiliation does
  not match the academic pattern.\<close>

fun non_academic_authors :: "json list \<Rightarrow> exn + json list" where
  "non_academic_authors [] = Inr []"
| "non_academic_authors (author # authors) =
     and_then (dict_get author ''affiliation'' (JStr '''')) (\<lambda>aff.
     and_then (re_search academic_pattern aff) (\<lambda>m.
     if \<not> m then
       and_then (subscript author ''name'') (\<lambda>n.
       and_then (non_academic_authors authors) (\<lambda>ns. Inr (n # ns)))
     else non_academic_authors authors))"

text \<open>The second comprehension: the affiliation of every author whose affiliation matches
  the company pattern.\<close>

fun company_affiliations :: "json list \<Rightarrow> exn + json list" where
  "company_affiliations [] = Inr []"
| "company_affiliations (author # authors) =
     and_then (dict_get author ''affiliation'' (JStr '''')) (\<lambda>aff.
     and_then (re_search company_pattern aff) (\<lambda>m.
     if m then
       and_then (dict_get author ''affiliation'' (JStr '''')) (\<lambda>a.
       and_then (company_affiliations authors) (\<lambda>cs. Inr (a # cs)))
     else company_affiliations authors))"

definition extract_paper_data :: "json \<Rightarrow> exn + row" where
  "extract_paper_data paper =
     and_then (dict_get paper ''authors'' (JArr [])) (\<lambda>authors_value.
     and_then (py_iter authors_value) (\<lambda>authors.
     and_then (non_academic_authors authors) (\<lambda>names.
     and_then (company_affiliations authors) (\<lambda>companies.
     and_then (dict_get paper ''uid'' (JStr '''')) (\<lambda>uid.
     and_then (dict_get paper ''title'' (JStr '''')) (\<lambda>title.
     and_then (dict_get paper ''pubdate'' (JStr '''')) (\<lambda>pubdate.
     and_then (str_join '', '' names) (\<lambda>names_column.
     and_then (str_join '', '' companies) (\<lambda>companies_column.
     and_then (dict_get paper ''elocationid'' (JStr '''')) (\<lambda>email.
     Inr \<lparr> PubmedID = uid, Title = title, Publication_Date = pubdate,
           Non_academic_Authors = names_column, Company_Affiliations = companies_column,
           Corresponding_Author_Email = email \<rparr>))))))))))"

section \<open>The outside world\<close>

text \<open>A line of a table is its header or a row; the quoting of cells by the \<open>csv\<close>
  module and the text of log messages are not modelled.\<close>

datatype line = Header "string list" | Data row

text \<open>
  What the program cannot decide itself is a parameter: the answer of the server to a
  request (\<open>None\<close> when the request does not complete, otherwise a status code and a body,
  which is \<open>None\<close> when it is not JSON); whether a path can be opened for writing; whether
  writing a line to an open file fails, given the lines written to it so far, because the
  line cannot be encoded or because the device refuses it; and whether closing the file,
  which flushes it, fails.
\<close>

record response =
  status_code :: nat
  json_body :: "json option"

datatype io_failure = Encoding_failure | Device_failure

fun io_exn :: "io_failure \<Rightarrow> exn" where
  "io_exn Encoding_failure = UnicodeEncodeError"
| "io_exn Device_failure = OSError"

record env =
  http_get :: "string \<Rightarrow> (string \<times> string) list \<Rightarrow> response option"
  open_for_writing :: "string \<Rightarrow> bool"
  write_failure :: "string \<Rightarrow> line list \<Rightarrow> line \<Rightarrow> io_failure option"
  close_failure :: "string \<Rightarrow> line list \<Rightarrow> bool"

text \<open>
  What the program does to the world: the requests it attempts, the files it writes, the
  lines it prints and the messages it logs. The content of a file is the lines the program
  has written to it; what has reached the device when a write or the close fails is not
  modelled.
\<close>

datatype log_entry = is_Debug: Debug json | is_Error: Error exn

record world =
  http_calls :: "(string \<times> (string \<times> string) list) list"
  files :: "string \<rightharpoonup> line list"
  stdout :: "line list"
  log :: "log_entry list"
  debug_enabled :: bool

text \<open>Sequencing of steps that may raise and that change the world.\<close>

definition and_then_io ::
  "(world \<Rightarrow> (exn + 'a) \<times> world) \<Rightarrow> ('a \<Rightarrow> world \<Rightarrow> (exn + 'b) \<times> world) \<Rightarrow>
   world \<Rightarrow> (exn + 'b) \<times> world" where
  "and_then_io step f w =
     (case step w of (Inl e, w') \<Rightarrow> (Inl e, w') | (Inr x, w') \<Rightarrow> f x w')"

definition pure_step :: "exn + 'a \<Rightarrow> world \<Rightarrow> (exn + 'a) \<times> world" where
  "pure_step r w = (r, w)"

subsection \<open>\<open>requests\<close>\<close>

definition requests_get :: "env \<Rightarrow> string \<Rightarrow> (string \<times> string) list \<Rightarrow> world \<Rightarrow> (exn + response) \<times> world" where
  "requests_get env url params w =
     ((case http_get env url params of None \<Rightarrow> Inl RequestException | Some r \<Rightarrow> Inr r),
      w\<lparr>http_calls := http_calls w @ [(url, params)]\<rparr>)"

definition raise_for_status :: "response \<Rightarrow> exn + unit" where
  "raise_for_status r =
     (if 400 \<le> status_code r \<and> status_code r < 600 then Inl (HTTPError (status_code r))
      else Inr ())"

definition response_json :: "response \<Rightarrow> exn + json" where
  "response_json r = (case json_body r of None \<Rightarrow> Inl JSONDecodeError | Some j \<Rightarrow> Inr j)"

subsection \<open>\<open>csv\<close>, \<open>open\<close>, \<open>print\<close> and \<open>logging\<close>\<close>

text \<open>
  \<open>csv.DictWriter(f, fieldnames)\<close> builds a \<open>csv.writer\<close> on \<open>f\<close>, which raises
  \<open>TypeError\<close> unless \<open>f\<close> has a \<open>write\<close> method. An open file has one; the built-in
  function \<open>print\<close> has none. A writer is the name of its file with the field names.
\<close>

datatype fileobj = File string | Builtin_print

fun DictWriter :: "fileobj \<Rightarrow> string list \<Rightarrow> exn + string \<times> string list" where
  "DictWriter (File f) fieldnames = Inr (f, fieldnames)"
| "DictWriter Builtin_print fieldnames = Inl TypeError"

text \<open>\<open>open(filename, mode="w")\<close> empties the file.\<close>

definition open_w :: "env \<Rightarrow> string \<Rightarrow> world \<Rightarrow> (exn + fileobj) \<times> world" where
  "open_w env filename w =
     (if open_for_writing env filename
      then (Inr (File filename), w\<lparr>files := (files w)(filename \<mapsto> [])\<rparr>)
      else (Inl OSError, w))"

definition content :: "world \<Rightarrow> string \<Rightarrow> line list" where
  "content w f = (case files w f of None \<Rightarrow> [] | Some ls \<Rightarrow> ls)"

text \<open>The writer hands each line to the file in one \<open>write\<close>; a line that cannot be written
  raises and the lines before it stay in the file.\<close>

definition write_line :: "env \<Rightarrow> string \<Rightarrow> line \<Rightarrow> world \<Rightarrow> (exn + unit) \<times> world" where
  "write_line env f l w =
     (case write_failure env f (content w f) l of
        Some x \<Rightarrow> (Inl (io_exn x), w)
      | None \<Rightarrow> (Inr (), w\<lparr>files := (files w)(f \<mapsto> content w f @ [l])\<rparr>))"

fun write_lines :: "env \<Rightarrow> string \<Rightarrow> line list \<Rightarrow> world \<Rightarrow> (exn + unit) \<times> world" where
  "write_lines env f [] w = (Inr (), w)"
| "write_lines env f (l # ls) w =
     and_then_io (write_line env f l) (\<lambda>u w'. write_lines env f ls w') w"

definition writeheader :: "env \<Rightarrow> string \<times> string list \<Rightarrow> world \<Rightarrow> (exn + unit) \<times> world" where
  "writeheader env writer = write_line env (fst writer) (Header (snd writer))"

definition writerows ::
  "env \<Rightarrow> string \<times> string list \<Rightarrow> row list \<Rightarrow> world \<Rightarrow> (exn + unit) \<times> world" where
  "writerows env writer data = write_lines env (fst writer) (map Data data)"

definition close_file :: "env \<Rightarrow> string \<Rightarrow> world \<Rightarrow> (exn + unit) \<times> world" where
  "close_file env f w = (if close_failure env f (content w f) then Inl OSError else Inr (), w)"

text \<open>\<open>with open(filename, mode="w", newline="") as file: body\<close>. The file is closed when
  the body ends and when it raises; an exception of the close is the one that leaves the
  block.\<close>

definition with_open ::
  "env \<Rightarrow> string \<Rightarrow> (fileobj \<Rightarrow> world \<Rightarrow> (exn + unit) \<times> world) \<Rightarrow> world \<Rightarrow>
   (exn + unit) \<times> world" where
  "with_open env filename body =
     and_then_io (open_w env filename) (\<lambda>file w.
       case body file w of
         (Inr u, w') \<Rightarrow> close_file env filename w'
       | (Inl e, w') \<Rightarrow>
           (case close_file env filename w' of
              (Inr u, w'') \<Rightarrow> (Inl e, w'')
            | (Inl e', w'') \<Rightarrow> (Inl e', w'')))"

definition print_rows :: "row list \<Rightarrow> world \<Rightarrow> world" where
  "print_rows data w = w\<lparr>stdout := stdout w @ map Data data\<rparr>"

definition logging_debug :: "json \<Rightarrow> world \<Rightarrow> world" where
  "logging_debug v w = (if debug_enabled w then w\<lparr>log := log w @ [Debug v]\<rparr> else w)"

definition logging_error :: "exn \<Rightarrow> world \<Rightarrow> world" where
  "logging_error e w = w\<lparr>log := log w @ [Error e]\<rparr>"

section \<open>The program\<close>

definition BASE_URL :: string where
  "BASE_URL = ''https://eutils.ncbi.nlm.nih.gov/entrez/eutils/esearch.fcgi''"

definition FETCH_URL :: string where
  "FETCH_URL = ''https://eutils.ncbi.nlm.nih.gov/entrez/eutils/esummary.fcgi''"

definition fetch_pubmed_ids :: "env \<Rightarrow> string \<Rightarrow> world \<Rightarrow> (exn + json) \<times> world" where
  "fetch_pubmed_ids env query =
     and_then_io
       (requests_get env BASE_URL
          [(''db'', ''pubmed''), (''term'', query), (''retmode'', ''json''), (''retmax'', ''100'')])
       (\<lambda>response. pure_step
          (and_then (raise_for_status response) (\<lambda>_.
           and_then (response_json response) (\<lambda>body.
           and_then (dict_get body ''esearchresult'' (JObj [])) (\<lambda>result.
           dict_get result ''idlist'' (JArr []))))))"

text \<open>The items of \<open>pubmed_ids\<close> as \<open>",".join(pubmed_ids)\<close> reads them: the value is
  iterated and every item must be a string.\<close>

definition str_items :: "json \<Rightarrow> exn + string list" where
  "str_items v =
     and_then (py_iter v) (\<lambda>xs. case as_strs xs of Some ss \<Rightarrow> Inr ss | None \<Rightarrow> Inl TypeError)"

definition fetch_paper_details :: "env \<Rightarrow> json \<Rightarrow> world \<Rightarrow> (exn + json) \<times> world" where
  "fetch_paper_details env pubmed_ids =
     and_then_io (pure_step (str_items pubmed_ids)) (\<lambda>ids.
     and_then_io
       (requests_get env FETCH_URL
          [(''db'', ''pubmed''), (''id'', join '','' ids), (''retmode'', ''json'')])
       (\<lambda>response. pure_step
          (and_then (raise_for_status response) (\<lambda>_.
           and_then (response_json response) (\<lambda>body.
           dict_get body ''result'' (JObj []))))))"

text \<open>\<open>pid in paper_details\<close> for a string \<open>pid\<close>: a key of a dictionary, an element of a
  list, a part of a string; any other value raises \<open>TypeError\<close>.\<close>

fun py_contains :: "string \<Rightarrow> json \<Rightarrow> exn + bool" where
  "py_contains pid (JObj kvs) = Inr (pid \<in> set (map fst kvs))"
| "py_contains pid (JArr xs) = Inr (JStr pid \<in> set xs)"
| "py_contains pid (JStr s) = Inr (occurs_in pid s)"
| "py_contains pid _ = Inl TypeError"

text \<open>The comprehension of \<open>main\<close>:
  \<open>[extract_paper_data(paper_details[pid]) for pid in pubmed_ids if pid in paper_details]\<close>.\<close>

fun extracted :: "string list \<Rightarrow> json \<Rightarrow> exn + row list" where
  "extracted [] paper_details = Inr []"
| "extracted (pid # pids) paper_details =
     and_then (py_contains pid paper_details) (\<lambda>present.
     if present then
       and_then (subscript paper_details pid) (\<lambda>paper.
       and_then (extract_paper_data paper) (\<lambda>r.
       and_then (extracted pids paper_details) (\<lambda>rs. Inr (r # rs))))
     else extracted pids paper_details)"

definition fieldnames :: "string list" where
  "fieldnames = [''PubmedID'', ''Title'', ''Publication Date'', ''Non-academic Author(s)'',
                 ''Company Affiliation(s)'', ''Corresponding Author Email'']"

text \<open>\<open>if filename:\<close> holds for a string that is not empty.\<close>

fun truthy :: "string option \<Rightarrow> bool" where
  "truthy None = False"
| "truthy (Some s) = (s \<noteq> [])"

definition save_to_csv :: "env \<Rightarrow> row list \<Rightarrow> string option \<Rightarrow> world \<Rightarrow> (exn + unit) \<times> world" where
  "save_to_csv env data filename =
     (if truthy filename then
        with_open env (the filename) (\<lambda>file.
          and_then_io (pure_step (DictWriter file fieldnames)) (\<lambda>writer.
          and_then_io (writeheader env writer) (\<lambda>u.
          writerows env writer data)))
      else
        and_then_io (pure_step (DictWriter Builtin_print fieldnames)) (\<lambda>writer.
        and_then_io (writeheader env writer) (\<lambda>u w.
        (Inr (), print_rows data w))))"

record args =
  query :: string
  file_opt :: "string option"
  debug :: bool

text \<open>The body of the \<open>try\<close> block. The items of \<open>pubmed_ids\<close> were strings when
  \<open>fetch_paper_details\<close> joined them, and the comprehension iterates the same items: where
  the fetch has returned, \<open>str_items\<close> cannot raise any more.\<close>

definition try_block :: "env \<Rightarrow> args \<Rightarrow> world \<Rightarrow> (exn + unit) \<times> world" where
  "try_block env a =
     and_then_io (fetch_pubmed_ids env (query a)) (\<lambda>pubmed_ids.
     and_then_io (\<lambda>w. (Inr (), logging_debug pubmed_ids w)) (\<lambda>_.
     and_then_io (fetch_paper_details env pubmed_ids) (\<lambda>paper_details.
     and_then_io (pure_step (and_then (str_items pubmed_ids) (\<lambda>ids. extracted ids paper_details)))
       (\<lambda>extracted_data.
     save_to_csv env extracted_data (file_opt a)))))"

text \<open>\<open>if args.debug: logging.basicConfig(level=logging.DEBUG)\<close>.\<close>

definition configure_logging :: "args \<Rightarrow> world \<Rightarrow> world" where
  "configure_logging a w = (if debug a then w\<lparr>debug_enabled := True\<rparr> else w)"

text \<open>\<open>main\<close> after the arguments are parsed. The result is \<open>None\<close> when \<open>main\<close> returns
  and the exception when one leaves it.\<close>

definition main :: "env \<Rightarrow> args \<Rightarrow> world \<Rightarrow> exn option \<times> world" where
  "main env a w =
     (case try_block env a (configure_logging a w) of
        (Inr u, w') \<Rightarrow> (None, w')
      | (Inl e, w') \<Rightarrow> if is_Exception e then (None, logging_error e w') else (Some e, w'))"

text \<open>The status of the process: 0 when \<open>main\<close> returns, and a status that is not 0 (1
  stands for it) when an exception leaves \<open>main\<close>.\<close>

fun exit_status :: "exn option \<Rightarrow> nat" where
  "exit_status None = 0"
| "exit_status (Some e) = 1"

text \<open>The world in which the detail fetch starts, and the world it leaves.\<close>

abbreviation after_search :: "env \<Rightarrow> args \<Rightarrow> json \<Rightarrow> world \<Rightarrow> world" where
  "after_search env a v w \<equiv>
     logging_debug v (snd (fetch_pubmed_ids env (query a) (configure_logging a w)))"

abbreviation after_fetch :: "env \<Rightarrow> args \<Rightarrow> json \<Rightarrow> world \<Rightarrow> world" where
  "after_fetch env a v w \<equiv> snd (fetch_paper_details env v (after_search env a v w))"

section \<open>Records of the expected shape\<close>

text \<open>A contributor entry as the data model describes it: a dictionary with a name that is
  a string and an affiliation that is a string or is missing.\<close>

fun named_contributor :: "json \<Rightarrow> bool" where
  "named_contributor (JObj kvs) =
     ((case map_of kvs ''name'' of Some (JStr n) \<Rightarrow> True | _ \<Rightarrow> False) \<and>
      (case map_of kvs ''affiliation'' of None \<Rightarrow> True | Some (JStr s) \<Rightarrow> True
       | _ \<Rightarrow> False))"
| "named_contributor _ = False"

section \<open>Example inputs\<close>

text \<open>A record with four contributors: two with company affiliations, one academic, one
  without an affiliation.\<close>

definition example_paper :: json where
  "example_paper = JObj
     [(''uid'', JStr ''31452104''),
      (''title'', JStr ''A trial''),
      (''pubdate'', JStr ''2019 Aug''),
      (''elocationid'', JStr ''doi: 10.1000/j.1''),
      (''authors'', JArr
         [JObj [(''name'', JStr ''Rao P''), (''affiliation'', JStr ''Acme Pharma Ltd'')],
          JObj [(''name'', JStr ''Smith J''),
                (''affiliation'', JStr ''Dept. of Chemistry, ABC Biotech Inc.'')],
          JObj [(''name'', JStr ''Lee K''), (''affiliation'', JStr ''Stanford University'')],
          JObj [(''name'', JStr ''Doe A'')]])]"

definition example_row :: row where
  "example_row =
     \<lparr> PubmedID = JStr ''31452104'', Title = JStr ''A trial'',
       Publication_Date = JStr ''2019 Aug'',
       Non_academic_Authors = ''Rao P, Smith J, Doe A'',
       Company_Affiliations = ''Acme Pharma Ltd, Dept. of Chemistry, ABC Biotech Inc.'',
       Corresponding_Author_Email = JStr ''doi: 10.1000/j.1'' \<rparr>"

text \<open>Servers: the body of a search answer, and an answer with status 200.\<close>

definition esearch_body :: "string list \<Rightarrow> json" where
  "esearch_body ids = JObj [(''esearchresult'', JObj [(''idlist'', JArr (map JStr ids))])]"

definition ok :: "json \<Rightarrow> response option" where
  "ok body = Some \<lparr>status_code = 200, json_body = Some body\<rparr>"

text \<open>The search finds two identifiers; the summary knows the first only.\<close>

definition example_env :: env where
  "example_env =
     \<lparr> http_get = (\<lambda>url params.
         if url = BASE_URL then ok (esearch_body [''31452104'', ''99999999''])
         else ok (JObj [(''result'',
                   JObj [(''uids'', JArr [JStr ''31452104'']), (''31452104'', example_paper)])])),
       open_for_writing = (\<lambda>f. True),
       write_failure = (\<lambda>f written l. None), close_failure = (\<lambda>f written. False) \<rparr>"

text \<open>The search finds nothing.\<close>

definition env_no_match :: env where
  "env_no_match =
     \<lparr> http_get = (\<lambda>url params.
         if url = BASE_URL then ok (esearch_body []) else ok (JObj [(''result'', JObj [])])),
       open_for_writing = (\<lambda>f. True),
       write_failure = (\<lambda>f written l. None), close_failure = (\<lambda>f written. False) \<rparr>"

text \<open>The summary of the one record found has no \<open>uid\<close> field.\<close>

definition env_no_uid :: env where
  "env_no_uid =
     \<lparr> http_get = (\<lambda>url params.
         if url = BASE_URL then ok (esearch_body [''31452104''])
         else ok (JObj [(''result'', JObj [(''31452104'', JObj [(''title'', JStr ''A trial'')])])])),
       open_for_writing = (\<lambda>f. True),
       write_failure = (\<lambda>f written l. None), close_failure = (\<lambda>f written. False) \<rparr>"

definition row_no_uid :: row where
  "row_no_uid =
     \<lparr> PubmedID = JStr '''', Title = JStr ''A trial'', Publication_Date = JStr '''',
       Non_academic_Authors = '''', Company_Affiliations = '''',
       Corresponding_Author_Email = JStr '''' \<rparr>"

text \<open>No request completes; the summary request is answered with status 503; no file can
  be opened.\<close>

definition env_offline :: env where
  "env_offline = \<lparr> http_get = (\<lambda>url params. None), open_for_writing = (\<lambda>f. True),
       write_failure = (\<lambda>f written l. None), close_failure = (\<lambda>f written. False) \<rparr>"

definition env_summary_unavailable :: env where
  "env_summary_unavailable =
     \<lparr> http_get = (\<lambda>url params.
         if url = BASE_URL then ok (esearch_body [''31452104''])
         else Some \<lparr>status_code = 503, json_body = None\<rparr>),
       open_for_writing = (\<lambda>f. True),
       write_failure = (\<lambda>f written l. None), close_failure = (\<lambda>f written. False) \<rparr>"

definition env_read_only :: env where
  "env_read_only = example_env \<lparr> open_for_writing := (\<lambda>f. False) \<rparr>"

definition example_args :: args where
  "example_args = \<lparr> query = ''trial'', file_opt = Some ''papers.csv'', debug = False \<rparr>"

definition empty_world :: world where
  "empty_world =
     \<lparr> http_calls = [], files = Map.empty, stdout = [], log = [], debug_enabled = False \<rparr>"

text \<open>The rows of the table cannot be encoded; the header can.\<close>

definition env_unencodable :: env where
  "env_unencodable = example_env
     \<lparr> write_failure :=
         (\<lambda>f written l. case l of Header h \<Rightarrow> None | Data r \<Rightarrow> Some Encoding_failure) \<rparr>"

text \<open>The summary of the one record found has a contributor whose affiliation is \<open>null\<close>.\<close>

definition paper_null_affiliation :: json where
  "paper_null_affiliation = JObj
     [(''uid'', JStr ''31452104''),
      (''authors'', JArr [JObj [(''name'', JStr ''Roe B''), (''affiliation'', JNull)]])]"

definition env_null_affiliation :: env where
  "env_null_affiliation =
     \<lparr> http_get = (\<lambda>url params.
         if url = BASE_URL then ok (esearch_body [''31452104''])
         else ok (JObj [(''result'', JObj [(''31452104'', paper_null_affiliation)])])),
       open_for_writing = (\<lambda>f. True),
       write_failure = (\<lambda>f written l. None), close_failure = (\<lambda>f written. False) \<rparr>"

section \<open>Sequencing\<close>

lemma and_then_Inl [simp]: "and_then (Inl e) f = Inl e"
  by (simp add: and_then_def)

lemma and_then_Inr [simp]: "and_then (Inr x) f = f x"
  by (simp add: and_then_def)

lemma and_then_eq_Inr: "and_then r f = Inr y \<longleftrightarrow> (\<exists>x. r = Inr x \<and> f x = Inr y)"
  by (cases r) simp_all

section \<open>The classifier, step by step\<close>

lemma as_strs_map_JStr: "as_strs (map JStr ss) = Some ss"
  by (induction ss) simp_all

lemma as_strs_SomeD: "as_strs xs = Some ss \<Longrightarrow> xs = map JStr ss"
  by (induction xs arbitrary: ss rule: as_strs.induct) (auto split: option.splits)

lemma as_strs_Some_iff: "as_strs xs = Some ss \<longleftrightarrow> xs = map JStr ss"
  using as_strs_SomeD as_strs_map_JStr by blast

lemma non_academic_authors_append:
  "non_academic_authors (xs @ ys) =
     and_then (non_academic_authors xs) (\<lambda>a.
     and_then (non_academic_authors ys) (\<lambda>b. Inr (a @ b)))"
  by (induction xs) (auto simp: and_then_def split: sum.splits)

lemma company_affiliations_append:
  "company_affiliations (xs @ ys) =
     and_then (company_affiliations xs) (\<lambda>a.
     and_then (company_affiliations ys) (\<lambda>b. Inr (a @ b)))"
  by (induction xs) (auto simp: and_then_def split: sum.splits)

lemma map_JStr_eq [simp]: "map JStr a = map JStr b \<longleftrightarrow> a = b"
  by (rule inj_map_eq_map) (simp add: inj_on_def)

lemma str_join_eq_Inr:
  "str_join sep xs = Inr s \<longleftrightarrow> (\<exists>ss. xs = map JStr ss \<and> s = join sep ss)"
  by (auto simp: str_join_def as_strs_Some_iff as_strs_map_JStr split: option.splits)

lemma extract_paper_data_Inr:
  assumes "extract_paper_data paper = Inr r"
  obtains authors_value authors names companies where
    "dict_get paper ''authors'' (JArr []) = Inr authors_value"
    "py_iter authors_value = Inr authors"
    "non_academic_authors authors = Inr (map JStr names)"
    "company_affiliations authors = Inr (map JStr companies)"
    "Non_academic_Authors r = join '', '' names"
    "Company_Affiliations r = join '', '' companies"
    "dict_get paper ''uid'' (JStr '''') = Inr (PubmedID r)"
proof -
  from assms obtain authors_value authors ns cs names_column companies_column uid where
      v: "dict_get paper ''authors'' (JArr []) = Inr authors_value"
    and a: "py_iter authors_value = Inr authors"
    and n: "non_academic_authors authors = Inr ns"
    and c: "company_affiliations authors = Inr cs"
    and nj: "str_join '', '' ns = Inr names_column"
    and cj: "str_join '', '' cs = Inr companies_column"
    and u: "dict_get paper ''uid'' (JStr '''') = Inr uid"
    and r: "PubmedID r = uid" "Non_academic_Authors r = names_column"
           "Company_Affiliations r = companies_column"
    by (auto simp: extract_paper_data_def and_then_eq_Inr simp del: dict_get.simps)
  from nj obtain names where names: "ns = map JStr names" "names_column = join '', '' names"
    by (auto simp: str_join_eq_Inr)
  from cj obtain companies where
    companies: "cs = map JStr companies" "companies_column = join '', '' companies"
    by (auto simp: str_join_eq_Inr)
  show thesis
    using that [of authors_value authors names companies] v a n c u names companies r by simp
qed

lemma non_academic_authors_mid:
  assumes "non_academic_authors (before @ JObj a # after) = Inr ns"
    and "dict_get (JObj a) ''affiliation'' (JStr '''') = Inr (JStr s)"
  obtains nb na where
    "non_academic_authors before = Inr nb" "non_academic_authors after = Inr na"
    "matches_any academic_pattern s \<longrightarrow> ns = nb @ na"
    "\<not> matches_any academic_pattern s \<longrightarrow> (\<exists>n. map_of a ''name'' = Some n \<and> ns = nb @ n # na)"
  using assms
  by (auto simp: non_academic_authors_append and_then_eq_Inr split: if_splits option.splits)

lemma company_affiliations_mid:
  assumes "company_affiliations (before @ JObj a # after) = Inr cs"
    and "dict_get (JObj a) ''affiliation'' (JStr '''') = Inr (JStr s)"
  obtains cb ca where
    "company_affiliations before = Inr cb" "company_affiliations after = Inr ca"
    "matches_any company_pattern s \<longrightarrow> cs = cb @ JStr s # ca"
    "\<not> matches_any company_pattern s \<longrightarrow> cs = cb @ ca"
  using assms
  by (auto simp: company_affiliations_append and_then_eq_Inr split: if_splits option.splits)

section \<open>The steps of a run\<close>

lemma and_then_io_Inl [simp]: "step w = (Inl e, w') \<Longrightarrow> and_then_io step f w = (Inl e, w')"
  by (simp add: and_then_io_def)

lemma and_then_io_Inr [simp]: "step w = (Inr x, w') \<Longrightarrow> and_then_io step f w = f x w'"
  by (simp add: and_then_io_def)

lemma pure_step_apply [simp]: "pure_step r w = (r, w)"
  by (simp add: pure_step_def)

lemma requests_get_snd:
  "snd (requests_get env url ps w) = w\<lparr>http_calls := http_calls w @ [(url, ps)]\<rparr>"
  by (simp add: requests_get_def)

lemma requests_get_fst:
  "fst (requests_get env url ps w) = fst (requests_get env url ps w')"
  by (simp add: requests_get_def)

lemma fetch_pubmed_ids_snd:
  "snd (fetch_pubmed_ids env q w) =
     w\<lparr>http_calls := http_calls w @
        [(BASE_URL, [(''db'', ''pubmed''), (''term'', q), (''retmode'', ''json''),
                     (''retmax'', ''100'')])]\<rparr>"
  by (simp add: fetch_pubmed_ids_def and_then_io_def requests_get_def split: option.splits)

lemma fetch_pubmed_ids_fst:
  "fst (fetch_pubmed_ids env q w) = fst (fetch_pubmed_ids env q w')"
  by (simp add: fetch_pubmed_ids_def and_then_io_def requests_get_def split: option.splits)

lemma fetch_paper_details_fst:
  "fst (fetch_paper_details env v w) = fst (fetch_paper_details env v w')"
  by (cases "str_items v")
     (simp_all add: fetch_paper_details_def and_then_io_def requests_get_def split: option.splits)

lemma fetch_paper_details_snd:
  "str_items v = Inr ids \<Longrightarrow>
   snd (fetch_paper_details env v w) =
     w\<lparr>http_calls := http_calls w @
        [(FETCH_URL, [(''db'', ''pubmed''), (''id'', join '','' ids), (''retmode'', ''json'')])]\<rparr>"
  by (simp add: fetch_paper_details_def and_then_io_def requests_get_def split: option.splits)

lemma fetch_paper_details_not_joined:
  "str_items v = Inl e \<Longrightarrow> fetch_paper_details env v w = (Inl e, w)"
  by (simp add: fetch_paper_details_def and_then_io_def)

lemma fetch_paper_details_Inr_items:
  "fst (fetch_paper_details env v w) = Inr d \<Longrightarrow> \<exists>ids. str_items v = Inr ids"
  by (cases "str_items v") (simp_all add: fetch_paper_details_not_joined)

section \<open>The table writer\<close>

lemma content_upd [simp]:
  "content (w\<lparr>files := (files w)(f \<mapsto> ls)\<rparr>) f = ls"
  by (simp add: content_def)

lemma write_line_fields [simp]:
  "http_calls (snd (write_line env f l w)) = http_calls w"
  "log (snd (write_line env f l w)) = log w"
  "stdout (snd (write_line env f l w)) = stdout w"
  "f' \<noteq> f \<Longrightarrow> files (snd (write_line env f l w)) f' = files w f'"
  by (simp_all add: write_line_def split: option.splits)

lemma write_lines_step:
  "write_lines env f (l # ls) w =
     (case write_line env f l w of
        (Inl e, w') \<Rightarrow> (Inl e, w')
      | (Inr u, w') \<Rightarrow> write_lines env f ls w')"
  by (simp add: and_then_io_def)

lemma write_lines_fields [simp]:
  "http_calls (snd (write_lines env f ls w)) = http_calls w"
  "log (snd (write_lines env f ls w)) = log w"
  "stdout (snd (write_lines env f ls w)) = stdout w"
  "f' \<noteq> f \<Longrightarrow> files (snd (write_lines env f ls w)) f' = files w f'"
proof -
  have "http_calls (snd (write_lines env f ls w)) = http_calls w \<and>
        log (snd (write_lines env f ls w)) = log w \<and>
        stdout (snd (write_lines env f ls w)) = stdout w \<and>
        (f' \<noteq> f \<longrightarrow> files (snd (write_lines env f ls w)) f' = files w f')"
  proof (induction ls arbitrary: w)
    case Nil
    show ?case by simp
  next
    case (Cons l ls)
    obtain r w1 where s: "write_line env f l w = (r, w1)"
      by (cases "write_line env f l w")
    have e: "w1 = snd (write_line env f l w)" using s by simp
    have w1: "http_calls w1 = http_calls w" "log w1 = log w" "stdout w1 = stdout w"
      "f' \<noteq> f \<longrightarrow> files w1 f' = files w f'"
      by (simp_all add: e)
    show ?case
    proof (cases r)
      case (Inl e)
      with s w1 show ?thesis by (simp add: write_lines_step del: write_lines.simps)
    next
      case (Inr u)
      with s w1 Cons.IH [of w1] show ?thesis
        by (simp add: write_lines_step del: write_lines.simps)
    qed
  qed
  then show "http_calls (snd (write_lines env f ls w)) = http_calls w"
    "log (snd (write_lines env f ls w)) = log w"
    "stdout (snd (write_lines env f ls w)) = stdout w"
    "f' \<noteq> f \<Longrightarrow> files (snd (write_lines env f ls w)) f' = files w f'"
    by simp_all
qed

lemma write_lines_all:
  assumes "\<forall>written l. write_failure env f written l = None"
    and "files w f = Some old"
  shows "write_lines env f ls w = (Inr (), w\<lparr>files := (files w)(f \<mapsto> old @ ls)\<rparr>)"
  using assms(2)
proof (induction ls arbitrary: w old)
  case Nil
  then show ?case by (simp add: map_upd_triv)
next
  case (Cons l ls)
  let ?w1 = "w\<lparr>files := (files w)(f \<mapsto> old @ [l])\<rparr>"
  have step: "write_line env f l w = (Inr (), ?w1)"
    using assms(1) Cons.prems by (simp add: write_line_def content_def)
  have f1: "files ?w1 f = Some (old @ [l])" by simp
  have a: "write_lines env f (l # ls) w = write_lines env f ls ?w1"
    unfolding write_lines_step step by simp
  have b: "write_lines env f ls ?w1 =
      (Inr (), ?w1\<lparr>files := (files ?w1)(f \<mapsto> (old @ [l]) @ ls)\<rparr>)"
    by (rule Cons.IH [OF f1])
  have c: "?w1\<lparr>files := (files ?w1)(f \<mapsto> (old @ [l]) @ ls)\<rparr> =
      w\<lparr>files := (files w)(f \<mapsto> old @ l # ls)\<rparr>"
    by simp
  show ?case by (simp only: a b c)
qed

lemma write_line_content:
  assumes "content w f = content w' f"
  shows "fst (write_line env f l w) = fst (write_line env f l w') \<and>
         content (snd (write_line env f l w)) f = content (snd (write_line env f l w')) f"
  using assms by (simp add: write_line_def split: option.splits)

lemma write_lines_content:
  assumes "content w f = content w' f"
  shows "fst (write_lines env f ls w) = fst (write_lines env f ls w') \<and>
         content (snd (write_lines env f ls w)) f = content (snd (write_lines env f ls w')) f"
  using assms
proof (induction ls arbitrary: w w')
  case Nil
  then show ?case by simp
next
  case (Cons l ls)
  obtain r w1 where s: "write_line env f l w = (r, w1)"
    by (cases "write_line env f l w")
  obtain r' w1' where s': "write_line env f l w' = (r', w1')"
    by (cases "write_line env f l w'")
  from write_line_content [OF Cons.prems, of env l] s s'
  have eq: "r = r'" "content w1 f = content w1' f" by simp_all
  show ?case
  proof (cases r)
    case (Inl e)
    with eq have "r' = Inl e" by simp
    with Inl s s' eq(2) show ?thesis by (simp add: write_lines_step del: write_lines.simps)
  next
    case (Inr u)
    with eq have "r' = Inr u" by simp
    with Inr s s' Cons.IH [OF eq(2)] show ?thesis
      by (simp add: write_lines_step del: write_lines.simps)
  qed
qed

lemma save_to_csv_no_file:
  "\<not> truthy filename \<Longrightarrow> save_to_csv env data filename w = (Inl TypeError, w)"
  by (simp add: save_to_csv_def and_then_io_def)

lemma save_to_csv_cannot_open:
  "f \<noteq> [] \<Longrightarrow> \<not> open_for_writing env f \<Longrightarrow>
   save_to_csv env data (Some f) w = (Inl OSError, w)"
  by (simp add: save_to_csv_def with_open_def and_then_io_def open_w_def)

lemma with_body:
  "and_then_io (writeheader env (f, fieldnames)) (\<lambda>u. writerows env (f, fieldnames) data) w =
   write_lines env f (Header fieldnames # map Data data) w"
  by (simp add: and_then_io_def writeheader_def writerows_def)

lemma save_to_csv_opened:
  "f \<noteq> [] \<Longrightarrow> open_for_writing env f \<Longrightarrow>
   save_to_csv env data (Some f) w =
     (case write_lines env f (Header fieldnames # map Data data)
             (w\<lparr>files := (files w)(f \<mapsto> [])\<rparr>) of
        (Inr u, w') \<Rightarrow> close_file env f w'
      | (Inl e, w') \<Rightarrow>
          (case close_file env f w' of
             (Inr u, w'') \<Rightarrow> (Inl e, w'')
           | (Inl e', w'') \<Rightarrow> (Inl e', w'')))"
  by (simp add: save_to_csv_def with_open_def and_then_io_Inr [of "open_w env f"] open_w_def
                with_body del: write_lines.simps)

lemma save_to_csv_file:
  assumes "f \<noteq> []" and "open_for_writing env f"
    and "\<forall>written l. write_failure env f written l = None"
    and "\<forall>written. \<not> close_failure env f written"
  shows "save_to_csv env data (Some f) w =
     (Inr (), w\<lparr>files := (files w)(f \<mapsto> Header fieldnames # map Data data)\<rparr>)"
proof -
  have "write_lines env f (Header fieldnames # map Data data)
          (w\<lparr>files := (files w)(f \<mapsto> [])\<rparr>) =
        (Inr (), w\<lparr>files := (files w)(f \<mapsto> Header fieldnames # map Data data)\<rparr>)"
    using write_lines_all [OF assms(3), of "w\<lparr>files := (files w)(f \<mapsto> [])\<rparr>" "[]"
            "Header fieldnames # map Data data"]
    by simp
  then show ?thesis
    using assms(4) by (simp add: save_to_csv_opened [OF assms(1,2)] close_file_def
                             del: write_lines.simps)
qed

lemma save_to_csv_header_only:
  assumes "f \<noteq> []" and "open_for_writing env f"
    and "write_failure env f [] (Header fieldnames) = None"
    and "\<not> close_failure env f [Header fieldnames]"
  shows "save_to_csv env [] (Some f) w =
     (Inr (), w\<lparr>files := (files w)(f \<mapsto> [Header fieldnames])\<rparr>)"
  using assms(3,4)
  by (simp add: save_to_csv_opened [OF assms(1,2)] close_file_def write_line_def
                and_then_io_def)

lemma close_file_fields [simp]:
  "snd (close_file env f w) = w"
  by (simp add: close_file_def)

lemma save_to_csv_fields [simp]:
  "http_calls (snd (save_to_csv env rows fo w)) = http_calls w"
  "log (snd (save_to_csv env rows fo w)) = log w"
  "stdout (snd (save_to_csv env rows fo w)) = stdout w"
proof -
  have "http_calls (snd (save_to_csv env rows fo w)) = http_calls w \<and>
        log (snd (save_to_csv env rows fo w)) = log w \<and>
        stdout (snd (save_to_csv env rows fo w)) = stdout w"
  proof (cases "truthy fo")
    case False
    then show ?thesis by (simp add: save_to_csv_no_file)
  next
    case True
    then obtain f where f: "fo = Some f" "f \<noteq> []" by (cases fo) auto
    show ?thesis
    proof (cases "open_for_writing env f")
      case False
      with f show ?thesis by (simp add: save_to_csv_cannot_open)
    next
      case True
      obtain r w' where s: "write_lines env f (Header fieldnames # map Data rows)
             (w\<lparr>files := (files w)(f \<mapsto> [])\<rparr>) = (r, w')"
        by (cases "write_lines env f (Header fieldnames # map Data rows)
             (w\<lparr>files := (files w)(f \<mapsto> [])\<rparr>)")
      have "http_calls w' = http_calls w" "log w' = log w" "stdout w' = stdout w"
        using write_lines_fields(1-3) [of env f "Header fieldnames # map Data rows"
                "w\<lparr>files := (files w)(f \<mapsto> [])\<rparr>"] s
        by (simp_all del: write_lines.simps)
      with s f True show ?thesis
        by (cases r; cases "close_failure env f (content w' f)")
           (simp_all add: save_to_csv_opened close_file_def del: write_lines.simps)
    qed
  qed
  then show "http_calls (snd (save_to_csv env rows fo w)) = http_calls w"
    "log (snd (save_to_csv env rows fo w)) = log w"
    "stdout (snd (save_to_csv env rows fo w)) = stdout w"
    by simp_all
qed

lemma save_to_csv_other_files:
  assumes "fo \<noteq> Some f'"
  shows "files (snd (save_to_csv env rows fo w)) f' = files w f'"
proof (cases "truthy fo")
  case False
  then show ?thesis by (simp add: save_to_csv_no_file)
next
  case True
  then obtain f where f: "fo = Some f" "f \<noteq> []" by (cases fo) auto
  with assms have ne: "f' \<noteq> f" by auto
  show ?thesis
  proof (cases "open_for_writing env f")
    case False
    with f show ?thesis by (simp add: save_to_csv_cannot_open)
  next
    case True
    obtain r w' where s: "write_lines env f (Header fieldnames # map Data rows)
           (w\<lparr>files := (files w)(f \<mapsto> [])\<rparr>) = (r, w')"
      by (cases "write_lines env f (Header fieldnames # map Data rows)
           (w\<lparr>files := (files w)(f \<mapsto> [])\<rparr>)")
    have "files w' f' = files w f'"
      using write_lines_fields(4) [OF ne, of env "Header fieldnames # map Data rows"
              "w\<lparr>files := (files w)(f \<mapsto> [])\<rparr>"] s ne
      by (simp del: write_lines.simps)
    with s f True show ?thesis
      by (cases r; cases "close_failure env f (content w' f)")
         (simp_all add: save_to_csv_opened close_file_def del: write_lines.simps)
  qed
qed

lemma save_to_csv_fst:
  "fst (save_to_csv env rows fo w) = fst (save_to_csv env rows fo w')"
proof (cases "truthy fo")
  case False
  then show ?thesis by (simp add: save_to_csv_no_file)
next
  case True
  then obtain f where f: "fo = Some f" "f \<noteq> []" by (cases fo) auto
  show ?thesis
  proof (cases "open_for_writing env f")
    case False
    with f show ?thesis by (simp add: save_to_csv_cannot_open)
  next
    case True
    obtain r w1 where s: "write_lines env f (Header fieldnames # map Data rows)
           (w\<lparr>files := (files w)(f \<mapsto> [])\<rparr>) = (r, w1)"
      by (cases "write_lines env f (Header fieldnames # map Data rows)
           (w\<lparr>files := (files w)(f \<mapsto> [])\<rparr>)")
    obtain r' w1' where s': "write_lines env f (Header fieldnames # map Data rows)
           (w'\<lparr>files := (files w')(f \<mapsto> [])\<rparr>) = (r', w1')"
      by (cases "write_lines env f (Header fieldnames # map Data rows)
           (w'\<lparr>files := (files w')(f \<mapsto> [])\<rparr>)")
    have "content (w\<lparr>files := (files w)(f \<mapsto> [])\<rparr>) f =
          content (w'\<lparr>files := (files w')(f \<mapsto> [])\<rparr>) f"
      by (simp add: content_def)
    from write_lines_content [OF this, of env "Header fieldnames # map Data rows"] s s'
    have eq: "r = r'" "content w1 f = content w1' f" by (simp_all del: write_lines.simps)
    with s s' f True show ?thesis
      by (cases r'; cases "close_failure env f (content w1' f)")
         (simp_all add: save_to_csv_opened close_file_def del: write_lines.simps)
  qed
qed

section \<open>The try block, step by step\<close>

lemma try_block_search_fails:
  "fetch_pubmed_ids env (query a) w = (Inl e, w1) \<Longrightarrow> try_block env a w = (Inl e, w1)"
  by (simp add: try_block_def)

lemma try_block_fetch_fails:
  "fetch_pubmed_ids env (query a) w = (Inr v, w1) \<Longrightarrow>
   fetch_paper_details env v (logging_debug v w1) = (Inl e, w2) \<Longrightarrow>
   try_block env a w = (Inl e, w2)"
  by (simp add: try_block_def)

lemma try_block_classify_fails:
  "fetch_pubmed_ids env (query a) w = (Inr v, w1) \<Longrightarrow>
   fetch_paper_details env v (logging_debug v w1) = (Inr d, w2) \<Longrightarrow>
   and_then (str_items v) (\<lambda>ids. extracted ids d) = Inl e \<Longrightarrow>
   try_block env a w = (Inl e, w2)"
  by (simp add: try_block_def)

lemma try_block_save:
  "fetch_pubmed_ids env (query a) w = (Inr v, w1) \<Longrightarrow>
   fetch_paper_details env v (logging_debug v w1) = (Inr d, w2) \<Longrightarrow>
   str_items v = Inr ids \<Longrightarrow> extracted ids d = Inr rows \<Longrightarrow>
   try_block env a w = save_to_csv env rows (file_opt a) w2"
  by (simp add: try_block_def)

section \<open>The exceptions raised are caught by \<open>except Exception\<close>\<close>

lemma and_then_eq_Inl:
  "and_then r f = Inl e \<longleftrightarrow> r = Inl e \<or> (\<exists>x. r = Inr x \<and> f x = Inl e)"
  by (cases r) simp_all

lemma dict_get_raises: "dict_get j k d = Inl e \<Longrightarrow> e = AttributeError"
  by (cases j) simp_all

lemma subscript_raises: "subscript j k = Inl e \<Longrightarrow> e = TypeError \<or> e = KeyError k"
  by (cases j) (simp_all split: option.splits)

lemma py_iter_raises: "py_iter j = Inl e \<Longrightarrow> e = TypeError"
  by (cases j) simp_all

lemma re_search_raises: "re_search p j = Inl e \<Longrightarrow> e = TypeError"
  by (cases j) simp_all

lemma str_join_raises: "str_join sep xs = Inl e \<Longrightarrow> e = TypeError"
  by (simp add: str_join_def split: option.splits)

lemma str_items_raises: "str_items v = Inl e \<Longrightarrow> e = TypeError"
  by (auto simp: str_items_def and_then_eq_Inl dest: py_iter_raises split: option.splits)

lemma py_contains_raises: "py_contains pid j = Inl e \<Longrightarrow> e = TypeError"
  by (cases j) simp_all

lemma non_academic_authors_raises:
  "non_academic_authors xs = Inl e \<Longrightarrow> is_Exception e"
  by (induction xs)
     (auto simp: and_then_eq_Inl
           dest: dict_get_raises re_search_raises subscript_raises split: if_splits)

lemma company_affiliations_raises:
  "company_affiliations xs = Inl e \<Longrightarrow> is_Exception e"
  by (induction xs)
     (auto simp: and_then_eq_Inl dest: dict_get_raises re_search_raises split: if_splits)

lemma extract_paper_data_raises: "extract_paper_data paper = Inl e \<Longrightarrow> is_Exception e"
  by (auto simp: extract_paper_data_def and_then_eq_Inl simp del: dict_get.simps
           dest: dict_get_raises py_iter_raises str_join_raises
                 non_academic_authors_raises company_affiliations_raises)

lemma extracted_raises: "extracted ids d = Inl e \<Longrightarrow> is_Exception e"
  by (induction ids)
     (auto simp: and_then_eq_Inl
           dest: py_contains_raises subscript_raises extract_paper_data_raises split: if_splits)

lemma fetch_pubmed_ids_raises: "fst (fetch_pubmed_ids env q w) = Inl e \<Longrightarrow> is_Exception e"
  by (auto simp: fetch_pubmed_ids_def and_then_io_def requests_get_def and_then_eq_Inl
                 raise_for_status_def response_json_def
           simp del: dict_get.simps dest: dict_get_raises split: option.splits if_splits)

lemma fetch_paper_details_raises:
  "fst (fetch_paper_details env v w) = Inl e \<Longrightarrow> is_Exception e"
  by (cases "str_items v")
     (auto simp: fetch_paper_details_def and_then_io_def requests_get_def and_then_eq_Inl
                 raise_for_status_def response_json_def
           simp del: dict_get.simps dest: dict_get_raises str_items_raises
           split: option.splits if_splits)

lemma io_exn_Exception [simp]: "is_Exception (io_exn x)"
  by (cases x) simp_all

lemma write_lines_raises: "fst (write_lines env f ls w) = Inl e \<Longrightarrow> is_Exception e"
proof (induction ls arbitrary: w)
  case Nil
  then show ?case by simp
next
  case (Cons l ls)
  show ?case
  proof (cases "write_failure env f (content w f) l")
    case (Some x)
    with Cons.prems have "e = io_exn x"
      by (simp add: write_lines_step write_line_def del: write_lines.simps)
    then show ?thesis by simp
  next
    case None
    with Cons.prems
    have "fst (write_lines env f ls (w\<lparr>files := (files w)(f \<mapsto> content w f @ [l])\<rparr>)) = Inl e"
      by (simp add: write_lines_step write_line_def del: write_lines.simps)
    then show ?thesis by (rule Cons.IH)
  qed
qed

lemma save_to_csv_raises: "fst (save_to_csv env data fo w) = Inl e \<Longrightarrow> is_Exception e"
proof -
  assume r: "fst (save_to_csv env data fo w) = Inl e"
  show ?thesis
  proof (cases "truthy fo")
    case False
    with r show ?thesis by (simp add: save_to_csv_no_file)
  next
    case True
    then obtain f where f: "fo = Some f" "f \<noteq> []" by (cases fo) auto
    show ?thesis
    proof (cases "open_for_writing env f")
      case False
      with f r show ?thesis by (simp add: save_to_csv_cannot_open)
    next
      case True
      obtain r1 w1 where s: "write_lines env f (Header fieldnames # map Data data)
             (w\<lparr>files := (files w)(f \<mapsto> [])\<rparr>) = (r1, w1)"
        by (cases "write_lines env f (Header fieldnames # map Data data)
             (w\<lparr>files := (files w)(f \<mapsto> [])\<rparr>)")
      show ?thesis
      proof (cases "close_failure env f (content w1 f)")
        case True
        with s f \<open>open_for_writing env f\<close> r have "e = OSError"
          by (cases r1) (simp_all add: save_to_csv_opened close_file_def del: write_lines.simps)
        then show ?thesis by simp
      next
        case False
        with s f \<open>open_for_writing env f\<close> r have "r1 = Inl e"
          by (cases r1) (simp_all add: save_to_csv_opened close_file_def del: write_lines.simps)
        with s write_lines_raises [of env f "Header fieldnames # map Data data"
               "w\<lparr>files := (files w)(f \<mapsto> [])\<rparr>" e]
        show ?thesis by (simp del: write_lines.simps)
      qed
    qed
  qed
qed

lemma try_block_raises: "try_block env a w = (Inl e, w') \<Longrightarrow> is_Exception e"
proof -
  assume t: "try_block env a w = (Inl e, w')"
  obtain r1 w1 where s1: "fetch_pubmed_ids env (query a) w = (r1, w1)"
    by (cases "fetch_pubmed_ids env (query a) w")
  show ?thesis
  proof (cases r1)
    case (Inl e1)
    with s1 t have "e = e1" by (simp add: try_block_search_fails)
    with s1 Inl fetch_pubmed_ids_raises [of env "query a" w e] show ?thesis by simp
  next
    case (Inr v)
    obtain r2 w2 where s2: "fetch_paper_details env v (logging_debug v w1) = (r2, w2)"
      by (cases "fetch_paper_details env v (logging_debug v w1)")
    show ?thesis
    proof (cases r2)
      case (Inl e2)
      with s1 s2 Inr t have "e = e2" by (simp add: try_block_fetch_fails)
      with s2 Inl fetch_paper_details_raises [of env v "logging_debug v w1" e]
      show ?thesis by simp
    next
      case d: (Inr d)
      show ?thesis
      proof (cases "and_then (str_items v) (\<lambda>ids. extracted ids d)")
        case (Inl e3)
        with s1 s2 Inr d t have "e = e3" by (simp add: try_block_classify_fails)
        with Inl show ?thesis
          by (auto simp: and_then_eq_Inl dest: str_items_raises extracted_raises)
      next
        case rows: (Inr rows)
        then obtain ids where "str_items v = Inr ids" "extracted ids d = Inr rows"
          by (auto simp: and_then_eq_Inr)
        with s1 s2 Inr d t have "save_to_csv env rows (file_opt a) w2 = (Inl e, w')"
          by (simp add: try_block_save)
        then show ?thesis
          using save_to_csv_raises [of env rows "file_opt a" w2 e] by simp
      qed
    qed
  qed
qed

lemma main_returns: "fst (main env a w) = None"
proof (cases "try_block env a (configure_logging a w)")
  case (Pair r w')
  then show ?thesis
    by (cases r) (auto simp: main_def dest: try_block_raises)
qed

section \<open>The run, case by case\<close>

lemma fetch_pubmed_ids_eq:
  "fetch_pubmed_ids env q w =
     (fst (fetch_pubmed_ids env q w0),
      w\<lparr>http_calls := http_calls w @
         [(BASE_URL, [(''db'', ''pubmed''), (''term'', q), (''retmode'', ''json''), (''retmax'', ''100'')])]\<rparr>)"
  using fetch_pubmed_ids_snd [of env q w] fetch_pubmed_ids_fst [of env q w w0]
  by (cases "fetch_pubmed_ids env q w") simp

lemma fetch_paper_details_eq:
  "str_items v = Inr ids \<Longrightarrow>
   fetch_paper_details env v w =
     (fst (fetch_paper_details env v w0),
      w\<lparr>http_calls := http_calls w @
         [(FETCH_URL, [(''db'', ''pubmed''), (''id'', join '','' ids), (''retmode'', ''json'')])]\<rparr>)"
  using fetch_paper_details_snd [of v ids env w] fetch_paper_details_fst [of env v w w0]
  by (cases "fetch_paper_details env v w") simp

lemma main_search_fails:
  assumes "fst (fetch_pubmed_ids env (query a) w) = Inl e"
  shows "main env a w =
     (None, logging_error e (snd (fetch_pubmed_ids env (query a) (configure_logging a w))))"
proof -
  have "fetch_pubmed_ids env (query a) (configure_logging a w) =
          (Inl e, snd (fetch_pubmed_ids env (query a) (configure_logging a w)))"
    using assms fetch_pubmed_ids_fst [of env "query a" "configure_logging a w" w]
    by (cases "fetch_pubmed_ids env (query a) (configure_logging a w)") simp
  then have "try_block env a (configure_logging a w) =
          (Inl e, snd (fetch_pubmed_ids env (query a) (configure_logging a w)))"
    by (rule try_block_search_fails)
  moreover from this have "is_Exception e" by (rule try_block_raises)
  ultimately show ?thesis by (simp add: main_def)
qed

lemma search_step:
  assumes "fst (fetch_pubmed_ids env (query a) w) = Inr v"
  shows "fetch_pubmed_ids env (query a) (configure_logging a w) =
          (Inr v, snd (fetch_pubmed_ids env (query a) (configure_logging a w)))"
  using assms fetch_pubmed_ids_fst [of env "query a" "configure_logging a w" w]
  by (cases "fetch_pubmed_ids env (query a) (configure_logging a w)") simp

lemma fetch_step:
  assumes "fst (fetch_paper_details env v w) = r"
  shows "fetch_paper_details env v (after_search env a v w) = (r, after_fetch env a v w)"
  using assms fetch_paper_details_fst [of env v "after_search env a v w" w]
  by (cases "fetch_paper_details env v (after_search env a v w)") simp

lemma main_fetch_fails:
  assumes "fst (fetch_pubmed_ids env (query a) w) = Inr v"
    and "fst (fetch_paper_details env v w) = Inl e"
  shows "main env a w = (None, logging_error e (after_fetch env a v w))"
proof -
  have "try_block env a (configure_logging a w) = (Inl e, after_fetch env a v w)"
    using search_step [OF assms(1)] fetch_step [OF assms(2)] by (rule try_block_fetch_fails)
  moreover from this have "is_Exception e" by (rule try_block_raises)
  ultimately show ?thesis by (simp add: main_def)
qed

lemma main_classify_fails:
  assumes "fst (fetch_pubmed_ids env (query a) w) = Inr v"
    and "fst (fetch_paper_details env v w) = Inr d"
    and "and_then (str_items v) (\<lambda>ids. extracted ids d) = Inl e"
  shows "main env a w = (None, logging_error e (after_fetch env a v w))"
proof -
  have "try_block env a (configure_logging a w) = (Inl e, after_fetch env a v w)"
    using search_step [OF assms(1)] fetch_step [OF assms(2)] assms(3)
    by (rule try_block_classify_fails)
  moreover from this have "is_Exception e" by (rule try_block_raises)
  ultimately show ?thesis by (simp add: main_def)
qed

lemma main_save:
  assumes "fst (fetch_pubmed_ids env (query a) w) = Inr v"
    and "fst (fetch_paper_details env v w) = Inr d"
    and "str_items v = Inr ids" and "extracted ids d = Inr rows"
  shows "main env a w =
     (case save_to_csv env rows (file_opt a) (after_fetch env a v w) of
        (Inr u, w') \<Rightarrow> (None, w')
      | (Inl e, w') \<Rightarrow> (None, logging_error e w'))"
proof -
  have t: "try_block env a (configure_logging a w) =
        save_to_csv env rows (file_opt a) (after_fetch env a v w)"
    using search_step [OF assms(1)] fetch_step [OF assms(2)] assms(3,4)
    by (rule try_block_save)
  show ?thesis
  proof (cases "save_to_csv env rows (file_opt a) (after_fetch env a v w)")
    case (Pair r w')
    show ?thesis
    proof (cases r)
      case (Inl e)
      with Pair t have "is_Exception e" by (auto dest: try_block_raises)
      with Inl Pair t show ?thesis by (simp add: main_def)
    next
      case (Inr u)
      with Pair t show ?thesis by (simp add: main_def)
    qed
  qed
qed

lemma main_save_fails:
  assumes "fst (fetch_pubmed_ids env (query a) w) = Inr v"
    and "fst (fetch_paper_details env v w) = Inr d"
    and "str_items v = Inr ids" and "extracted ids d = Inr rows"
    and "fst (save_to_csv env rows (file_opt a) w) = Inl e"
  shows "main env a w =
     (None, logging_error e (snd (save_to_csv env rows (file_opt a) (after_fetch env a v w))))"
proof -
  have "fst (save_to_csv env rows (file_opt a) (after_fetch env a v w)) = Inl e"
    using assms(5) save_to_csv_fst [of env rows "file_opt a" "after_fetch env a v w" w]
    by simp
  then obtain w' where "save_to_csv env rows (file_opt a) (after_fetch env a v w) = (Inl e, w')"
    by (cases "save_to_csv env rows (file_opt a) (after_fetch env a v w)") simp
  then show ?thesis by (simp add: main_save [OF assms(1-4)])
qed

lemma main_writes:
  assumes "fst (fetch_pubmed_ids env (query a) w) = Inr v"
    and "fst (fetch_paper_details env v w) = Inr d"
    and "str_items v = Inr ids" and "extracted ids d = Inr rows"
    and "file_opt a = Some f" and "f \<noteq> []" and "open_for_writing env f"
    and "\<forall>written l. write_failure env f written l = None"
    and "\<forall>written. \<not> close_failure env f written"
  shows "main env a w =
     (None, (after_fetch env a v w)
        \<lparr>files := (files (after_fetch env a v w))(f \<mapsto> Header fieldnames # map Data rows)\<rparr>)"
  by (simp add: main_save [OF assms(1-4)] assms(5) save_to_csv_file [OF assms(6-9)])

lemma main_writes_header:
  assumes "fst (fetch_pubmed_ids env (query a) w) = Inr v"
    and "fst (fetch_paper_details env v w) = Inr d"
    and "str_items v = Inr []"
    and "file_opt a = Some f" and "f \<noteq> []" and "open_for_writing env f"
    and "write_failure env f [] (Header fieldnames) = None"
    and "\<not> close_failure env f [Header fieldnames]"
  shows "main env a w =
     (None, (after_fetch env a v w)
        \<lparr>files := (files (after_fetch env a v w))(f \<mapsto> [Header fieldnames])\<rparr>)"
proof -
  have e: "extracted [] d = Inr []" by simp
  show ?thesis
    by (simp add: main_save [OF assms(1-3) e] assms(4) save_to_csv_header_only [OF assms(5-8)])
qed

lemma logging_debug_fields [simp]:
  "files (logging_debug v w) = files w" "stdout (logging_debug v w) = stdout w"
  "http_calls (logging_debug v w) = http_calls w"
  "filter is_Error (log (logging_debug v w)) = filter is_Error (log w)"
  by (simp_all add: logging_debug_def)

lemma configure_logging_fields [simp]:
  "files (configure_logging a w) = files w" "stdout (configure_logging a w) = stdout w"
  "http_calls (configure_logging a w) = http_calls w" "log (configure_logging a w) = log w"
  by (simp_all add: configure_logging_def)

lemma fetch_pubmed_ids_fields [simp]:
  "files (snd (fetch_pubmed_ids env q w)) = files w"
  "stdout (snd (fetch_pubmed_ids env q w)) = stdout w"
  "log (snd (fetch_pubmed_ids env q w)) = log w"
  "debug_enabled (snd (fetch_pubmed_ids env q w)) = debug_enabled w"
  by (simp_all add: fetch_pubmed_ids_snd)

lemma fetch_paper_details_fields [simp]:
  "files (snd (fetch_paper_details env v w)) = files w"
  "stdout (snd (fetch_paper_details env v w)) = stdout w"
  "log (snd (fetch_paper_details env v w)) = log w"
  by (cases "str_items v";
      simp add: fetch_paper_details_snd fetch_paper_details_not_joined)+

lemma logging_error_fields [simp]:
  "files (logging_error e w) = files w" "stdout (logging_error e w) = stdout w"
  "http_calls (logging_error e w) = http_calls w"
  "log (logging_error e w) = log w @ [Error e]"
  by (simp_all add: logging_error_def)

section \<open>The examples evaluated\<close>

lemmas classify_simps =
  extract_paper_data_def matches_any_def academic_pattern_def company_pattern_def
  lower_char_def str_join_def

lemma example_paper_row: "extract_paper_data example_paper = Inr example_row"
  by (simp add: example_paper_def example_row_def classify_simps)

lemma empty_matches_nothing [simp]:
  "\<not> matches_any academic_pattern ''''" "\<not> matches_any company_pattern ''''"
  by (simp_all add: matches_any_def academic_pattern_def company_pattern_def)

section \<open>The requests of a run\<close>

lemma after_fetch_http_calls:
  "str_items v = Inr ids \<Longrightarrow>
   http_calls (after_fetch env a v w) = http_calls w @
     [(BASE_URL, [(''db'', ''pubmed''), (''term'', query a), (''retmode'', ''json''),
                  (''retmax'', ''100'')]),
      (FETCH_URL, [(''db'', ''pubmed''), (''id'', join '','' ids), (''retmode'', ''json'')])]"
  by (simp add: fetch_paper_details_snd fetch_pubmed_ids_snd)

section \<open>The comprehension of \<open>main\<close>\<close>

lemma extracted_rows:
  "extracted ids d = Inr rows \<Longrightarrow>
   \<forall>r \<in> set rows. \<exists>pid \<in> set ids. \<exists>paper.
     subscript d pid = Inr paper \<and> extract_paper_data paper = Inr r"
proof (induction ids arbitrary: rows)
  case Nil
  then show ?case by simp
next
  case (Cons pid ids)
  from Cons.prems obtain present where p: "py_contains pid d = Inr present"
    by (auto simp: and_then_eq_Inr)
  show ?case
  proof (cases present)
    case True
    with Cons.prems p obtain paper r rs where
      "subscript d pid = Inr paper" "extract_paper_data paper = Inr r"
      "extracted ids d = Inr rs" "rows = r # rs"
      by (auto simp: and_then_eq_Inr)
    with Cons.IH [of rs] show ?thesis by auto
  next
    case False
    with Cons.prems p have "extracted ids d = Inr rows" by simp
    with Cons.IH [of rows] show ?thesis by auto
  qed
qed

lemma extracted_drops_absent:
  "extracted ids (JObj kvs) = extracted [pid \<leftarrow> ids. pid \<in> fst ` set kvs] (JObj kvs)"
  by (induction ids) simp_all

lemma extracted_length:
  "extracted ids (JObj kvs) = Inr rows \<Longrightarrow>
   length rows = length [pid \<leftarrow> ids. pid \<in> fst ` set kvs]"
  by (induction ids arbitrary: rows) (auto simp: and_then_eq_Inr split: if_splits)

lemma extracted_raises_from_classifier:
  "extracted ids (JObj kvs) = Inl e \<Longrightarrow>
   \<exists>pid \<in> set ids. \<exists>paper. map_of kvs pid = Some paper \<and> extract_paper_data paper = Inl e"
proof (induction ids)
  case Nil
  then show ?case by simp
next
  case (Cons pid ids)
  show ?case
  proof (cases "pid \<in> fst ` set kvs")
    case False
    with Cons show ?thesis by simp
  next
    case True
    then obtain paper where paper: "map_of kvs pid = Some paper"
      by (cases "map_of kvs pid") (auto simp: map_of_eq_None_iff)
    show ?thesis
    proof (cases "extract_paper_data paper")
      case (Inl e')
      with True paper Cons.prems have "e = e'" by simp
      with Inl paper show ?thesis by auto
    next
      case (Inr r)
      with True paper Cons.prems have "extracted ids (JObj kvs) = Inl e"
        by (simp add: and_then_eq_Inl)
      with Cons.IH show ?thesis by auto
    qed
  qed
qed

lemma extracted_returns:
  assumes "\<forall>pid \<in> set ids. \<forall>paper. map_of kvs pid = Some paper \<longrightarrow>
             (\<exists>r. extract_paper_data paper = Inr r)"
  shows "\<exists>rows. extracted ids (JObj kvs) = Inr rows"
proof (cases "extracted ids (JObj kvs)")
  case (Inr rows)
  then show ?thesis by blast
next
  case (Inl e)
  then obtain pid paper where "pid \<in> set ids" "map_of kvs pid = Some paper"
    "extract_paper_data paper = Inl e"
    using extracted_raises_from_classifier by blast
  with assms show ?thesis by fastforce
qed

lemma extracted_in_order:
  "extracted ids (JObj kvs) = Inr rows \<Longrightarrow>
   list_all2 (\<lambda>pid r. \<exists>paper. map_of kvs pid = Some paper \<and> extract_paper_data paper = Inr r)
     [pid \<leftarrow> ids. pid \<in> fst ` set kvs] rows"
proof (induction ids arbitrary: rows)
  case Nil
  then show ?case by simp
next
  case (Cons pid ids)
  show ?case
  proof (cases "pid \<in> fst ` set kvs")
    case False
    with Cons show ?thesis by simp
  next
    case True
    with Cons.prems obtain paper r rs where
      "subscript (JObj kvs) pid = Inr paper" "extract_paper_data paper = Inr r"
      "extracted ids (JObj kvs) = Inr rs" "rows = r # rs"
      by (auto simp: and_then_eq_Inr)
    moreover from this(1) have "map_of kvs pid = Some paper"
      by (simp split: option.splits)
    ultimately show ?thesis using True Cons.IH [of rs] by auto
  qed
qed

section \<open>The example servers evaluated\<close>

lemmas request_simps =
  fetch_pubmed_ids_def fetch_paper_details_def and_then_io_def requests_get_def
  raise_for_status_def response_json_def str_items_def BASE_URL_def FETCH_URL_def
  ok_def esearch_body_def

lemma example_search:
  "fst (fetch_pubmed_ids example_env q w) = Inr (JArr [JStr ''31452104'', JStr ''99999999''])"
  by (simp add: request_simps example_env_def)

lemma example_items:
  "str_items (JArr [JStr ''31452104'', JStr ''99999999'']) = Inr [''31452104'', ''99999999'']"
  by (simp add: str_items_def)

lemma example_details:
  "fst (fetch_paper_details example_env (JArr [JStr ''31452104'', JStr ''99999999'']) w) =
     Inr (JObj [(''uids'', JArr [JStr ''31452104'']), (''31452104'', example_paper)])"
  by (simp add: request_simps example_env_def)

lemma example_extracted:
  "extracted [''31452104'', ''99999999'']
     (JObj [(''uids'', JArr [JStr ''31452104'']), (''31452104'', example_paper)]) =
   Inr [example_row]"
  by (simp add: example_paper_row)

section \<open>Contributors\<close>

lemma named_contributor_fields:
  assumes "named_contributor x"
  obtains kvs n s where "x = JObj kvs" "map_of kvs ''name'' = Some (JStr n)"
    "dict_get x ''affiliation'' (JStr '''') = Inr (JStr s)"
  using assms
  by (cases x) (auto split: option.splits json.splits)

lemma non_academic_authors_named:
  "list_all named_contributor authors \<Longrightarrow> \<exists>ns. non_academic_authors authors = Inr (map JStr ns)"
proof (induction authors)
  case Nil
  show ?case by simp
next
  case (Cons x authors)
  then obtain ns where ns: "non_academic_authors authors = Inr (map JStr ns)" by auto
  from Cons.prems obtain kvs n s where x: "x = JObj kvs"
    "map_of kvs ''name'' = Some (JStr n)"
    "dict_get x ''affiliation'' (JStr '''') = Inr (JStr s)"
    by (auto elim: named_contributor_fields)
  show ?case
  proof (cases "matches_any academic_pattern s")
    case True
    with x ns show ?thesis by (auto simp del: dict_get.simps)
  next
    case False
    with x ns have "non_academic_authors (x # authors) = Inr (map JStr (n # ns))"
      by (simp del: dict_get.simps)
    then show ?thesis by blast
  qed
qed

lemma company_affiliations_named:
  "list_all named_contributor authors \<Longrightarrow> \<exists>cs. company_affiliations authors = Inr (map JStr cs)"
proof (induction authors)
  case Nil
  show ?case by simp
next
  case (Cons x authors)
  then obtain cs where cs: "company_affiliations authors = Inr (map JStr cs)" by auto
  from Cons.prems obtain kvs n s where x: "x = JObj kvs"
    "dict_get x ''affiliation'' (JStr '''') = Inr (JStr s)"
    by (auto elim: named_contributor_fields)
  show ?case
  proof (cases "matches_any company_pattern s")
    case False
    with x cs show ?thesis by (auto simp del: dict_get.simps)
  next
    case True
    with x cs have "company_affiliations (x # authors) = Inr (map JStr (s # cs))"
      by (simp del: dict_get.simps)
    then show ?thesis by blast
  qed
qed

lemma contributor_columns:
  assumes "extract_paper_data paper = Inr r"
    and "dict_get paper ''authors'' (JArr []) = Inr (JArr (before @ JObj a # after))"
    and "dict_get (JObj a) ''affiliation'' (JStr '''') = Inr (JStr s)"
  obtains nb na cb ca where
    "non_academic_authors before = Inr (map JStr nb)"
    "non_academic_authors after = Inr (map JStr na)"
    "company_affiliations before = Inr (map JStr cb)"
    "company_affiliations after = Inr (map JStr ca)"
    "matches_any academic_pattern s \<Longrightarrow> Non_academic_Authors r = join '', '' (nb @ na)"
    "\<not> matches_any academic_pattern s \<Longrightarrow>
       \<exists>n. map_of a ''name'' = Some (JStr n) \<and> Non_academic_Authors r = join '', '' (nb @ n # na)"
    "matches_any company_pattern s \<Longrightarrow> Company_Affiliations r = join '', '' (cb @ s # ca)"
    "\<not> matches_any company_pattern s \<Longrightarrow> Company_Affiliations r = join '', '' (cb @ ca)"
proof -
  from assms(1) obtain authors_value authors names companies where
      "dict_get paper ''authors'' (JArr []) = Inr authors_value"
      "py_iter authors_value = Inr authors"
    and n: "non_academic_authors authors = Inr (map JStr names)"
    and c: "company_affiliations authors = Inr (map JStr companies)"
    and cols: "Non_academic_Authors r = join '', '' names"
              "Company_Affiliations r = join '', '' companies"
    by (rule extract_paper_data_Inr)
  with assms(2) have authors: "authors = before @ JObj a # after" by simp
  from n obtain nb na where
      nb: "non_academic_authors before = Inr nb" and na: "non_academic_authors after = Inr na"
    and n1: "matches_any academic_pattern s \<longrightarrow> map JStr names = nb @ na"
    and n2: "\<not> matches_any academic_pattern s \<longrightarrow>
               (\<exists>n. map_of a ''name'' = Some n \<and> map JStr names = nb @ n # na)"
    unfolding authors by (rule non_academic_authors_mid [OF _ assms(3)]) blast
  from c obtain cb ca where
      cb: "company_affiliations before = Inr cb" and ca: "company_affiliations after = Inr ca"
    and c1: "matches_any company_pattern s \<longrightarrow> map JStr companies = cb @ JStr s # ca"
    and c2: "\<not> matches_any company_pattern s \<longrightarrow> map JStr companies = cb @ ca"
    unfolding authors by (rule company_affiliations_mid [OF _ assms(3)]) blast
  from n1 n2 obtain nb' na' where nb': "nb = map JStr nb'" and na': "na = map JStr na'"
    by (cases "matches_any academic_pattern s")
       (auto simp: map_eq_append_conv map_eq_Cons_conv)
  from c1 c2 obtain cb' ca' where cb': "cb = map JStr cb'" and ca': "ca = map JStr ca'"
    by (cases "matches_any company_pattern s")
       (auto simp: map_eq_append_conv map_eq_Cons_conv)
  show thesis
  proof (rule that [of nb' na' cb' ca'])
    show "non_academic_authors before = Inr (map JStr nb')" using nb nb' by simp
    show "non_academic_authors after = Inr (map JStr na')" using na na' by simp
    show "company_affiliations before = Inr (map JStr cb')" using cb cb' by simp
    show "company_affiliations after = Inr (map JStr ca')" using ca ca' by simp
    show "Non_academic_Authors r = join '', '' (nb' @ na')"
      if "matches_any academic_pattern s"
    proof -
      from n1 that have "map JStr names = map JStr (nb' @ na')"
        by (simp add: nb' na')
      then have "names = nb' @ na'" by (simp only: map_JStr_eq)
      then show ?thesis by (simp add: cols)
    qed
    show "\<exists>n. map_of a ''name'' = Some (JStr n) \<and>
            Non_academic_Authors r = join '', '' (nb' @ n # na')"
      if "\<not> matches_any academic_pattern s"
    proof -
      from n2 that obtain x where x: "map_of a ''name'' = Some x"
        and eq: "map JStr names = nb @ x # na" by blast
      from eq obtain n where "x = JStr n"
        by (auto simp: map_eq_append_conv map_eq_Cons_conv)
      with eq have "map JStr names = map JStr (nb' @ n # na')"
        by (simp add: nb' na')
      then have "names = nb' @ n # na'" by (simp only: map_JStr_eq)
      with x \<open>x = JStr n\<close> show ?thesis by (auto simp: cols)
    qed
    show "Company_Affiliations r = join '', '' (cb' @ s # ca')"
      if "matches_any company_pattern s"
    proof -
      from c1 that have "map JStr companies = map JStr (cb' @ s # ca')"
        by (simp add: cb' ca')
      then have "companies = cb' @ s # ca'" by (simp only: map_JStr_eq)
      then show ?thesis by (simp add: cols)
    qed
    show "Company_Affiliations r = join '', '' (cb' @ ca')"
      if "\<not> matches_any company_pattern s"
    proof -
      from c2 that have "map JStr companies = map JStr (cb' @ ca')"
        by (simp add: cb' ca')
      then have "companies = cb' @ ca'" by (simp only: map_JStr_eq)
      then show ?thesis by (simp add: cols)
    qed
  qed
qed

section \<open>The claims\<close>

subsection \<open>C1: a search that returns no identifier\<close>

text \<open>
  The orchestrator has no guard for an empty search result. With the server
  \<open>env_no_match\<close>, whose search answer has an empty \<open>idlist\<close>, the run still sends the
  detail request, with an empty \<open>id\<close> parameter.
\<close>

theorem no_identifiers_detail_fetch_still_sent:
  "fst (fetch_pubmed_ids env_no_match (query example_args) empty_world) = Inr (JArr []) \<and>
   str_items (JArr []) = Inr [] \<and>
   (FETCH_URL, [(''db'', ''pubmed''), (''id'', ''''), (''retmode'', ''json'')])
     \<in> set (http_calls (snd (main env_no_match example_args empty_world)))"
proof -
  have s: "fst (fetch_pubmed_ids env_no_match (query example_args) empty_world) = Inr (JArr [])"
    by (simp add: request_simps env_no_match_def)
  have i: "str_items (JArr []) = Inr []"
    by (simp add: str_items_def)
  have d: "fst (fetch_paper_details env_no_match (JArr []) empty_world) = Inr (JObj [])"
    by (simp add: request_simps env_no_match_def)
  have e: "extracted [] (JObj []) = Inr []" by simp
  have f: "file_opt example_args = Some ''papers.csv''" "''papers.csv'' \<noteq> []"
    "open_for_writing env_no_match ''papers.csv''"
    "\<forall>written l. write_failure env_no_match ''papers.csv'' written l = None"
    "\<forall>written. \<not> close_failure env_no_match ''papers.csv'' written"
    by (simp_all add: example_args_def env_no_match_def)
  show ?thesis
    using s i by (simp add: main_writes [OF s d i e f] after_fetch_http_calls [OF i])
qed

text \<open>
  C1, as the code has it: when the search step returns zero identifiers, the run attempts
  exactly two requests, the search and one detail fetch whose \<open>id\<close> parameter is the empty
  string; and if that fetch returns and a destination file is given and can be opened,
  written and closed, the file written holds the header only, with zero data rows, and no
  error is logged.
\<close>

theorem no_identifiers_one_fetch_header_only:
  assumes "fst (fetch_pubmed_ids env (query a) w) = Inr pubmed_ids"
    and "str_items pubmed_ids = Inr []"
  shows "http_calls (snd (main env a w)) = http_calls w @
           [(BASE_URL, [(''db'', ''pubmed''), (''term'', query a), (''retmode'', ''json''),
                        (''retmax'', ''100'')]),
            (FETCH_URL, [(''db'', ''pubmed''), (''id'', ''''), (''retmode'', ''json'')])] \<and>
         (\<forall>paper_details f.
            fst (fetch_paper_details env pubmed_ids w) = Inr paper_details \<and>
            file_opt a = Some f \<and> f \<noteq> [] \<and> open_for_writing env f \<and>
            write_failure env f [] (Header fieldnames) = None \<and>
            \<not> close_failure env f [Header fieldnames] \<longrightarrow>
            files (snd (main env a w)) f = Some [Header fieldnames] \<and>
            filter is_Error (log (snd (main env a w))) = filter is_Error (log w))"
proof (intro conjI allI impI)
  have calls: "http_calls (after_fetch env a pubmed_ids w) = http_calls w @
           [(BASE_URL, [(''db'', ''pubmed''), (''term'', query a), (''retmode'', ''json''),
                        (''retmax'', ''100'')]),
            (FETCH_URL, [(''db'', ''pubmed''), (''id'', ''''), (''retmode'', ''json'')])]"
    using after_fetch_http_calls [OF assms(2), of env a w] by simp
  show "http_calls (snd (main env a w)) = http_calls w @
           [(BASE_URL, [(''db'', ''pubmed''), (''term'', query a), (''retmode'', ''json''),
                        (''retmax'', ''100'')]),
            (FETCH_URL, [(''db'', ''pubmed''), (''id'', ''''), (''retmode'', ''json'')])]"
  proof (cases "fst (fetch_paper_details env pubmed_ids w)")
    case (Inl e)
    show ?thesis by (simp add: main_fetch_fails [OF assms(1) Inl] calls)
  next
    case (Inr d)
    have "extracted [] d = Inr []" by simp
    note m = main_save [OF assms(1) Inr assms(2) this]
    show ?thesis
    proof (cases "save_to_csv env [] (file_opt a) (after_fetch env a pubmed_ids w)")
      case (Pair r w')
      then have "http_calls w' = http_calls (after_fetch env a pubmed_ids w)"
        using save_to_csv_fields(1) [of env "[]" "file_opt a" "after_fetch env a pubmed_ids w"]
        by simp
      with Pair m calls show ?thesis by (cases r) simp_all
    qed
  qed
next
  fix paper_details f
  assume h: "fst (fetch_paper_details env pubmed_ids w) = Inr paper_details \<and>
            file_opt a = Some f \<and> f \<noteq> [] \<and> open_for_writing env f \<and>
            write_failure env f [] (Header fieldnames) = None \<and>
            \<not> close_failure env f [Header fieldnames]"
  have m: "main env a w =
     (None, (after_fetch env a pubmed_ids w)
        \<lparr>files := (files (after_fetch env a pubmed_ids w))(f \<mapsto> [Header fieldnames])\<rparr>)"
    using h by (intro main_writes_header [OF assms(1) _ assms(2)]) simp_all
  show "files (snd (main env a w)) f = Some [Header fieldnames]"
    by (simp add: m)
  show "filter is_Error (log (snd (main env a w))) = filter is_Error (log w)"
    by (simp add: m)
qed

theorem no_identifiers_one_fetch_header_only_witness:
  "fst (fetch_pubmed_ids env_no_match (query example_args) empty_world) = Inr (JArr []) \<and>
   str_items (JArr []) = Inr [] \<and>
   fst (fetch_paper_details env_no_match (JArr []) empty_world) = Inr (JObj []) \<and>
   file_opt example_args = Some ''papers.csv'' \<and>
   open_for_writing env_no_match ''papers.csv'' \<and>
   write_failure env_no_match ''papers.csv'' [] (Header fieldnames) = None \<and>
   \<not> close_failure env_no_match ''papers.csv'' [Header fieldnames] \<and>
   http_calls (snd (main env_no_match example_args empty_world)) =
     [(BASE_URL, [(''db'', ''pubmed''), (''term'', ''trial''), (''retmode'', ''json''),
                  (''retmax'', ''100'')]),
      (FETCH_URL, [(''db'', ''pubmed''), (''id'', ''''), (''retmode'', ''json'')])] \<and>
   files (snd (main env_no_match example_args empty_world)) ''papers.csv'' =
     Some [Header fieldnames]"
proof -
  have s: "fst (fetch_pubmed_ids env_no_match (query example_args) empty_world) = Inr (JArr [])"
    by (simp add: request_simps env_no_match_def)
  have i: "str_items (JArr []) = Inr []"
    by (simp add: str_items_def)
  have d: "fst (fetch_paper_details env_no_match (JArr []) empty_world) = Inr (JObj [])"
    by (simp add: request_simps env_no_match_def)
  have f: "file_opt example_args = Some ''papers.csv''"
    "open_for_writing env_no_match ''papers.csv''"
    "write_failure env_no_match ''papers.csv'' [] (Header fieldnames) = None"
    "\<not> close_failure env_no_match ''papers.csv'' [Header fieldnames]"
    by (simp_all add: example_args_def env_no_match_def)
  from no_identifiers_one_fetch_header_only [OF s i] d f
  have "http_calls (snd (main env_no_match example_args empty_world)) =
          http_calls empty_world @
          [(BASE_URL, [(''db'', ''pubmed''), (''term'', query example_args), (''retmode'', ''json''),
                       (''retmax'', ''100'')]),
           (FETCH_URL, [(''db'', ''pubmed''), (''id'', ''''), (''retmode'', ''json'')])]"
    and "files (snd (main env_no_match example_args empty_world)) ''papers.csv'' =
          Some [Header fieldnames]"
    by auto
  then show ?thesis
    using s i d f by (simp add: example_args_def empty_world_def)
qed

subsection \<open>C2: the classifier on a contributor without a name\<close>

text \<open>
  Every lookup of the classifier but one is a \<open>get\<close> with a default; the name of a
  contributor is read with \<open>author["name"]\<close>. For records whose contributors all have a
  name the classifier returns a row:
\<close>

lemma extract_paper_data_returns_row:
  assumes "dict_get paper ''authors'' (JArr []) = Inr (JArr authors)"
    and "list_all named_contributor authors"
  shows "\<exists>r. extract_paper_data paper = Inr r"
proof -
  from assms(1) obtain kvs where paper: "paper = JObj kvs"
    by (cases paper) simp_all
  from assms(2) obtain ns cs where
    "non_academic_authors authors = Inr (map JStr ns)"
    "company_affiliations authors = Inr (map JStr cs)"
    using non_academic_authors_named company_affiliations_named by blast
  with assms(1) show ?thesis
    unfolding paper
    by (simp add: extract_paper_data_def str_join_def as_strs_map_JStr)
qed

text \<open>
  C2 says that the classifier returns a row for every record, also for one with a
  contributor entry without a name. On the record below, whose only contributor has a
  company affiliation and no name, the classifier raises \<open>KeyError\<close>.
\<close>

theorem extract_paper_data_missing_name_raises:
  "extract_paper_data
     (JObj [(''uid'', JStr ''31452104''),
            (''authors'', JArr [JObj [(''affiliation'', JStr ''Acme Pharma Ltd'')]])]) =
   Inl (KeyError ''name'')"
  by (simp add: classify_simps)

subsection \<open>C3: the table writer without a destination\<close>

text \<open>
  C3 says that without a destination each row is printed and the write completes. In the
  code the writer is first built on \<open>print\<close>, which has no \<open>write\<close> method: for all rows,
  \<open>save_to_csv\<close> raises \<open>TypeError\<close> and leaves the world as it was, nothing printed.
\<close>

theorem save_to_csv_without_destination_raises:
  "save_to_csv env data None w = (Inl TypeError, w)"
  by (simp add: save_to_csv_no_file)

subsection \<open>C4: the identifier column\<close>

text \<open>
  The identifier column is filled from the \<open>uid\<close> field of the record, not from the
  identifier the record was found under. With the server \<open>env_no_uid\<close> the search returns
  the identifier 31452104 and the row written has the empty string as its identifier.
\<close>

theorem identifier_column_not_from_search:
  "fst (fetch_pubmed_ids env_no_uid (query example_args) empty_world) =
     Inr (JArr [JStr ''31452104'']) \<and>
   files (snd (main env_no_uid example_args empty_world)) ''papers.csv'' =
     Some [Header fieldnames, Data row_no_uid] \<and>
   PubmedID row_no_uid = JStr '''' \<and> PubmedID row_no_uid \<noteq> JStr ''31452104''"
proof -
  have s: "fst (fetch_pubmed_ids env_no_uid (query example_args) empty_world) =
     Inr (JArr [JStr ''31452104''])"
    by (simp add: request_simps env_no_uid_def)
  have d: "fst (fetch_paper_details env_no_uid (JArr [JStr ''31452104'']) empty_world) =
     Inr (JObj [(''31452104'', JObj [(''title'', JStr ''A trial'')])])"
    by (simp add: request_simps env_no_uid_def)
  have i: "str_items (JArr [JStr ''31452104'']) = Inr [''31452104'']"
    by (simp add: str_items_def)
  have e: "extracted [''31452104''] (JObj [(''31452104'', JObj [(''title'', JStr ''A trial'')])]) =
     Inr [row_no_uid]"
    by (simp add: row_no_uid_def extract_paper_data_def str_join_def)
  have f: "file_opt example_args = Some ''papers.csv''" "''papers.csv'' \<noteq> []"
    "open_for_writing env_no_uid ''papers.csv''"
    "\<forall>written l. write_failure env_no_uid ''papers.csv'' written l = None"
    "\<forall>written. \<not> close_failure env_no_uid ''papers.csv'' written"
    by (simp_all add: example_args_def env_no_uid_def)
  show ?thesis
    using s by (simp add: main_writes [OF s d i e f]) (simp add: row_no_uid_def)
qed

text \<open>
  C4, as the code has it: in a run that writes its table to a file (the classifier returns
  its rows and the file can be opened, written and closed), the file holds the header and
  the classified rows, and the identifier column of every row is the \<open>uid\<close>
  field (the empty string when the field is missing) of the record fetched for an
  identifier that the search step returned; so where the \<open>uid\<close> field of each such record
  is the identifier it is stored under, every identifier written is one that the search
  step returned.
\<close>

theorem identifier_column_from_uid_field:
  assumes "fst (fetch_pubmed_ids env (query a) w) = Inr pubmed_ids"
    and "str_items pubmed_ids = Inr ids"
    and "fst (fetch_paper_details env pubmed_ids w) = Inr paper_details"
    and "extracted ids paper_details = Inr extracted_data"
    and "file_opt a = Some f" and "f \<noteq> []" and "open_for_writing env f"
    and "\<forall>written l. write_failure env f written l = None"
    and "\<forall>written. \<not> close_failure env f written"
  shows "files (snd (main env a w)) f = Some (Header fieldnames # map Data extracted_data) \<and>
    (\<forall>r \<in> set extracted_data. \<exists>pid \<in> set ids. \<exists>paper.
        subscript paper_details pid = Inr paper \<and>
        dict_get paper ''uid'' (JStr '''') = Inr (PubmedID r)) \<and>
    ((\<forall>pid \<in> set ids. \<forall>paper. subscript paper_details pid = Inr paper \<longrightarrow>
        dict_get paper ''uid'' (JStr '''') = Inr (JStr pid)) \<longrightarrow>
     (\<forall>r \<in> set extracted_data. \<exists>pid \<in> set ids. PubmedID r = JStr pid))"
proof -
  have rows: "\<forall>r \<in> set extracted_data. \<exists>pid \<in> set ids. \<exists>paper.
        subscript paper_details pid = Inr paper \<and>
        dict_get paper ''uid'' (JStr '''') = Inr (PubmedID r)"
  proof
    fix r assume "r \<in> set extracted_data"
    with extracted_rows [OF assms(4)] obtain pid paper where
      "pid \<in> set ids" "subscript paper_details pid = Inr paper"
      "extract_paper_data paper = Inr r"
      by blast
    moreover from this(3) have "dict_get paper ''uid'' (JStr '''') = Inr (PubmedID r)"
      by (rule extract_paper_data_Inr)
    ultimately show "\<exists>pid \<in> set ids. \<exists>paper.
        subscript paper_details pid = Inr paper \<and>
        dict_get paper ''uid'' (JStr '''') = Inr (PubmedID r)"
      by blast
  qed
  have "files (snd (main env a w)) f = Some (Header fieldnames # map Data extracted_data)"
    by (simp add: main_writes [OF assms(1) assms(3) assms(2) assms(4-9)])
  moreover have "(\<forall>pid \<in> set ids. \<forall>paper. subscript paper_details pid = Inr paper \<longrightarrow>
        dict_get paper ''uid'' (JStr '''') = Inr (JStr pid)) \<longrightarrow>
     (\<forall>r \<in> set extracted_data. \<exists>pid \<in> set ids. PubmedID r = JStr pid)"
  proof (intro impI ballI)
    fix r
    assume u: "\<forall>pid \<in> set ids. \<forall>paper. subscript paper_details pid = Inr paper \<longrightarrow>
        dict_get paper ''uid'' (JStr '''') = Inr (JStr pid)"
      and "r \<in> set extracted_data"
    with rows obtain pid paper where pid: "pid \<in> set ids"
      and "subscript paper_details pid = Inr paper"
      and uid: "dict_get paper ''uid'' (JStr '''') = Inr (PubmedID r)"
      by blast
    with u have "dict_get paper ''uid'' (JStr '''') = Inr (JStr pid)" by blast
    with uid have "PubmedID r = JStr pid" by simp
    with pid show "\<exists>pid \<in> set ids. PubmedID r = JStr pid" by blast
  qed
  ultimately show ?thesis using rows by blast
qed

theorem identifier_column_from_uid_field_witness:
  "fst (fetch_pubmed_ids example_env (query example_args) empty_world) =
     Inr (JArr [JStr ''31452104'', JStr ''99999999'']) \<and>
   extracted [''31452104'', ''99999999'']
     (JObj [(''uids'', JArr [JStr ''31452104'']), (''31452104'', example_paper)]) =
     Inr [example_row] \<and>
   files (snd (main example_env example_args empty_world)) ''papers.csv'' =
     Some [Header fieldnames, Data example_row] \<and>
   (\<exists>pid \<in> set [''31452104'', ''99999999'']. PubmedID example_row = JStr pid)"
proof -
  have f: "file_opt example_args = Some ''papers.csv''" "''papers.csv'' \<noteq> []"
    "open_for_writing example_env ''papers.csv''"
    "\<forall>written l. write_failure example_env ''papers.csv'' written l = None"
    "\<forall>written. \<not> close_failure example_env ''papers.csv'' written"
    by (simp_all add: example_args_def example_env_def)
  have u: "\<forall>pid \<in> set [''31452104'', ''99999999'']. \<forall>paper.
      subscript (JObj [(''uids'', JArr [JStr ''31452104'']), (''31452104'', example_paper)]) pid
        = Inr paper \<longrightarrow>
      dict_get paper ''uid'' (JStr '''') = Inr (JStr pid)"
    by (simp add: example_paper_def)
  from identifier_column_from_uid_field
         [OF example_search example_items example_details example_extracted f] u
  show ?thesis
    using example_search example_extracted by simp
qed

subsection \<open>C5: the number of rows\<close>

text \<open>
  The number of rows follows the identifiers only where the classifier returns a row for
  every record selected: one exception anywhere ends the run with no table. With the
  server \<open>env_null_affiliation\<close> the search returns one identifier, the identifier is a
  key of the detail mapping, and its record has a contributor whose affiliation is
  \<open>null\<close>: the classifier raises \<open>TypeError\<close>, the run writes no file and prints nothing.
\<close>

theorem row_count_not_identifiers_present:
  "fst (fetch_pubmed_ids env_null_affiliation (query example_args) empty_world) =
     Inr (JArr [JStr ''31452104'']) \<and>
   fst (fetch_paper_details env_null_affiliation (JArr [JStr ''31452104'']) empty_world) =
     Inr (JObj [(''31452104'', paper_null_affiliation)]) \<and>
   length [pid \<leftarrow> [''31452104'']. pid \<in> fst ` set [(''31452104'', paper_null_affiliation)]] = 1 \<and>
   fst (main env_null_affiliation example_args empty_world) = None \<and>
   files (snd (main env_null_affiliation example_args empty_world)) ''papers.csv'' = None \<and>
   stdout (snd (main env_null_affiliation example_args empty_world)) = [] \<and>
   log (snd (main env_null_affiliation example_args empty_world)) = [Error TypeError]"
proof -
  have s: "fst (fetch_pubmed_ids env_null_affiliation (query example_args) empty_world) =
     Inr (JArr [JStr ''31452104''])"
    by (simp add: request_simps env_null_affiliation_def)
  have d: "fst (fetch_paper_details env_null_affiliation (JArr [JStr ''31452104''])
             empty_world) = Inr (JObj [(''31452104'', paper_null_affiliation)])"
    by (simp add: request_simps env_null_affiliation_def)
  have c: "extract_paper_data paper_null_affiliation = Inl TypeError"
    by (simp add: paper_null_affiliation_def extract_paper_data_def)
  have e: "and_then (str_items (JArr [JStr ''31452104'']))
             (\<lambda>ids. extracted ids (JObj [(''31452104'', paper_null_affiliation)])) =
           Inl TypeError"
    by (simp add: str_items_def c)
  have m: "main env_null_affiliation example_args empty_world =
     (None, logging_error TypeError
        (after_fetch env_null_affiliation example_args (JArr [JStr ''31452104'']) empty_world))"
    by (rule main_classify_fails [OF s d e])
  have l: "log (after_search env_null_affiliation example_args (JArr [JStr ''31452104''])
             empty_world) = []"
    by (simp add: logging_debug_def configure_logging_def example_args_def empty_world_def)
  have "fst (main env_null_affiliation example_args empty_world) = None"
    by (simp add: m)
  moreover have "files (snd (main env_null_affiliation example_args empty_world))
      ''papers.csv'' = None"
    by (simp add: m) (simp add: empty_world_def)
  moreover have "stdout (snd (main env_null_affiliation example_args empty_world)) = []"
    by (simp add: m) (simp add: empty_world_def)
  moreover have "log (snd (main env_null_affiliation example_args empty_world)) =
      [Error TypeError]"
    by (simp add: m l)
  ultimately show ?thesis
    using s d by simp
qed

text \<open>
  C5, as the code has it: for every sequence of identifiers returned by the search and
  every detail mapping such that the classifier returns a row for each record stored under
  a returned identifier, a run whose destination file can be opened, written and closed
  writes the header and then one row for each returned identifier that is a key of the
  mapping, in the order of the search: as many rows as such identifiers, so at most as
  many as the identifiers returned. The identifiers absent from the mapping give no row
  and no error: \<open>main\<close> returns and logs no error.
\<close>

theorem row_count_identifiers_present:
  assumes "fst (fetch_pubmed_ids env (query a) w) = Inr pubmed_ids"
    and "str_items pubmed_ids = Inr ids"
    and "fst (fetch_paper_details env pubmed_ids w) = Inr (JObj kvs)"
    and "\<forall>pid \<in> set ids. \<forall>paper. map_of kvs pid = Some paper \<longrightarrow>
           (\<exists>r. extract_paper_data paper = Inr r)"
    and "file_opt a = Some f" and "f \<noteq> []" and "open_for_writing env f"
    and "\<forall>written l. write_failure env f written l = None"
    and "\<forall>written. \<not> close_failure env f written"
  shows "\<exists>rows.
      files (snd (main env a w)) f = Some (Header fieldnames # map Data rows) \<and>
      length rows = length [pid \<leftarrow> ids. pid \<in> fst ` set kvs] \<and>
      length rows \<le> length ids \<and>
      list_all2
        (\<lambda>pid r. \<exists>paper. map_of kvs pid = Some paper \<and> extract_paper_data paper = Inr r)
        [pid \<leftarrow> ids. pid \<in> fst ` set kvs] rows \<and>
      fst (main env a w) = None \<and>
      filter is_Error (log (snd (main env a w))) = filter is_Error (log w)"
proof -
  from assms(4) obtain rows where rows: "extracted ids (JObj kvs) = Inr rows"
    using extracted_returns by blast
  have m: "main env a w =
     (None, (after_fetch env a pubmed_ids w)
        \<lparr>files := (files (after_fetch env a pubmed_ids w))
                    (f \<mapsto> Header fieldnames # map Data rows)\<rparr>)"
    by (rule main_writes [OF assms(1) assms(3) assms(2) rows assms(5-9)])
  have n: "length rows = length [pid \<leftarrow> ids. pid \<in> fst ` set kvs]"
    using rows by (rule extracted_length)
  have "files (snd (main env a w)) f = Some (Header fieldnames # map Data rows)"
    by (simp add: m)
  moreover have "length rows \<le> length ids"
    unfolding n by simp
  moreover have "fst (main env a w) = None"
    by (simp add: m)
  moreover have "filter is_Error (log (snd (main env a w))) = filter is_Error (log w)"
    by (simp add: m)
  ultimately show ?thesis
    using n extracted_in_order [OF rows] by blast
qed

theorem row_count_identifiers_present_witness:
  "fst (fetch_pubmed_ids example_env (query example_args) empty_world) =
     Inr (JArr [JStr ''31452104'', JStr ''99999999'']) \<and>
   fst (fetch_paper_details example_env (JArr [JStr ''31452104'', JStr ''99999999''])
          empty_world) =
     Inr (JObj [(''uids'', JArr [JStr ''31452104'']), (''31452104'', example_paper)]) \<and>
   extract_paper_data example_paper = Inr example_row \<and>
   [pid \<leftarrow> [''31452104'', ''99999999''].
      pid \<in> fst ` set [(''uids'', JArr [JStr ''31452104'']), (''31452104'', example_paper)]] =
     [''31452104''] \<and>
   files (snd (main example_env example_args empty_world)) ''papers.csv'' =
     Some [Header fieldnames, Data example_row] \<and>
   fst (main example_env example_args empty_world) = None \<and>
   log (snd (main example_env example_args empty_world)) = []"
proof -
  have f: "file_opt example_args = Some ''papers.csv''" "''papers.csv'' \<noteq> []"
    "open_for_writing example_env ''papers.csv''"
    "\<forall>written l. write_failure example_env ''papers.csv'' written l = None"
    "\<forall>written. \<not> close_failure example_env ''papers.csv'' written"
    by (simp_all add: example_args_def example_env_def)
  have c: "\<forall>pid \<in> set [''31452104'', ''99999999'']. \<forall>paper.
      map_of [(''uids'', JArr [JStr ''31452104'']), (''31452104'', example_paper)] pid
        = Some paper \<longrightarrow>
      (\<exists>r. extract_paper_data paper = Inr r)"
    by (simp add: example_paper_row)
  have p: "[pid \<leftarrow> [''31452104'', ''99999999''].
      pid \<in> fst ` set [(''uids'', JArr [JStr ''31452104'']), (''31452104'', example_paper)]] =
     [''31452104'']"
    by simp
  from row_count_identifiers_present [OF example_search example_items example_details c f]
  obtain rows where
      written: "files (snd (main example_env example_args empty_world)) ''papers.csv'' =
        Some (Header fieldnames # map Data rows)"
    and rows: "list_all2
        (\<lambda>pid r. \<exists>paper.
           map_of [(''uids'', JArr [JStr ''31452104'']), (''31452104'', example_paper)] pid
             = Some paper \<and> extract_paper_data paper = Inr r)
        [pid \<leftarrow> [''31452104'', ''99999999''].
           pid \<in> fst ` set [(''uids'', JArr [JStr ''31452104'']),
                               (''31452104'', example_paper)]] rows"
    and ret: "fst (main example_env example_args empty_world) = None"
    and lg: "filter is_Error (log (snd (main example_env example_args empty_world))) =
        filter is_Error (log empty_world)"
    by blast
  from rows have "rows = [example_row]"
    unfolding p by (auto simp: list_all2_Cons1 example_paper_row)
  moreover have "log (snd (main example_env example_args empty_world)) = []"
    by (simp add: main_writes [OF example_search example_details example_items
                    example_extracted f])
       (simp add: logging_debug_def configure_logging_def example_args_def empty_world_def)
  ultimately show ?thesis
    using written ret example_search example_details example_paper_row p by simp
qed

subsection \<open>C6, C7, C8: one contributor\<close>

text \<open>
  The classifier returns a row or raises for the whole record. In the record below the
  first contributor has no affiliation and the second has the affiliation \<open>null\<close>: the
  classifier raises \<open>TypeError\<close> and no contributor is counted.
\<close>

theorem missing_affiliation_no_row:
  "dict_get (JObj [(''authors'', JArr [JObj [(''name'', JStr ''Doe A'')],
                                       JObj [(''name'', JStr ''Roe B''),
                                             (''affiliation'', JNull)]])])
     ''authors'' (JArr []) =
     Inr (JArr ([] @ JObj [(''name'', JStr ''Doe A'')] #
                [JObj [(''name'', JStr ''Roe B''), (''affiliation'', JNull)]])) \<and>
   map_of [(''name'', JStr ''Doe A'')] ''affiliation'' = None \<and>
   extract_paper_data
     (JObj [(''authors'', JArr [JObj [(''name'', JStr ''Doe A'')],
                                JObj [(''name'', JStr ''Roe B''),
                                      (''affiliation'', JNull)]])]) =
     Inl TypeError"
  by (simp add: classify_simps)

text \<open>
  C6, as the code has it: for every record whose contributor entries are dictionaries with
  a name that is a string and an affiliation that is a string or is missing, the
  classifier returns a row, and a contributor whose affiliation is missing or the empty
  string has its name in the non-academic column, between the names taken from the
  contributors before and after; the company column is made of the affiliations taken from
  the contributors before and after alone.
\<close>

theorem missing_affiliation_non_academic_not_company:
  assumes "dict_get paper ''authors'' (JArr []) = Inr (JArr (before @ JObj a # after))"
    and "list_all named_contributor (before @ JObj a # after)"
    and "map_of a ''affiliation'' = None \<or> map_of a ''affiliation'' = Some (JStr '''')"
  shows "\<exists>r n nb na cb ca.
           extract_paper_data paper = Inr r \<and>
           map_of a ''name'' = Some (JStr n) \<and>
           non_academic_authors before = Inr (map JStr nb) \<and>
           non_academic_authors after = Inr (map JStr na) \<and>
           Non_academic_Authors r = join '', '' (nb @ n # na) \<and>
           company_affiliations before = Inr (map JStr cb) \<and>
           company_affiliations after = Inr (map JStr ca) \<and>
           Company_Affiliations r = join '', '' (cb @ ca)"
proof -
  from assms(1,2) obtain r where r: "extract_paper_data paper = Inr r"
    using extract_paper_data_returns_row by blast
  have aff: "dict_get (JObj a) ''affiliation'' (JStr '''') = Inr (JStr '''')"
    using assms(3) by auto
  have m: "\<not> matches_any academic_pattern ''''" "\<not> matches_any company_pattern ''''"
    by (simp_all add: matches_any_def academic_pattern_def company_pattern_def)
  from r assms(1) aff show ?thesis
    by (rule contributor_columns) (use m r in blast)
qed

theorem missing_affiliation_non_academic_not_company_witness:
  "extract_paper_data example_paper = Inr example_row \<and>
   map_of [(''name'', JStr ''Doe A'')] ''affiliation'' = None \<and>
   (\<exists>n nb na cb ca.
      map_of [(''name'', JStr ''Doe A'')] ''name'' = Some (JStr n) \<and>
      non_academic_authors
        [JObj [(''name'', JStr ''Rao P''), (''affiliation'', JStr ''Acme Pharma Ltd'')],
         JObj [(''name'', JStr ''Smith J''),
               (''affiliation'', JStr ''Dept. of Chemistry, ABC Biotech Inc.'')],
         JObj [(''name'', JStr ''Lee K''), (''affiliation'', JStr ''Stanford University'')]]
        = Inr (map JStr nb) \<and>
      non_academic_authors [] = Inr (map JStr na) \<and>
      Non_academic_Authors example_row = join '', '' (nb @ n # na) \<and>
      company_affiliations
        [JObj [(''name'', JStr ''Rao P''), (''affiliation'', JStr ''Acme Pharma Ltd'')],
         JObj [(''name'', JStr ''Smith J''),
               (''affiliation'', JStr ''Dept. of Chemistry, ABC Biotech Inc.'')],
         JObj [(''name'', JStr ''Lee K''), (''affiliation'', JStr ''Stanford University'')]]
        = Inr (map JStr cb) \<and>
      company_affiliations [] = Inr (map JStr ca) \<and>
      Company_Affiliations example_row = join '', '' (cb @ ca))"
proof -
  have h2: "dict_get example_paper ''authors'' (JArr []) = Inr (JArr
     ([JObj [(''name'', JStr ''Rao P''), (''affiliation'', JStr ''Acme Pharma Ltd'')],
       JObj [(''name'', JStr ''Smith J''),
             (''affiliation'', JStr ''Dept. of Chemistry, ABC Biotech Inc.'')],
       JObj [(''name'', JStr ''Lee K''), (''affiliation'', JStr ''Stanford University'')]]
      @ JObj [(''name'', JStr ''Doe A'')] # []))"
    by (simp add: example_paper_def)
  have h3: "map_of [(''name'', JStr ''Doe A'')] ''affiliation'' = None \<or>
            map_of [(''name'', JStr ''Doe A'')] ''affiliation'' = Some (JStr '''')"
    by simp
  have h4: "list_all named_contributor
     ([JObj [(''name'', JStr ''Rao P''), (''affiliation'', JStr ''Acme Pharma Ltd'')],
       JObj [(''name'', JStr ''Smith J''),
             (''affiliation'', JStr ''Dept. of Chemistry, ABC Biotech Inc.'')],
       JObj [(''name'', JStr ''Lee K''), (''affiliation'', JStr ''Stanford University'')]]
      @ JObj [(''name'', JStr ''Doe A'')] # [])"
    by simp
  from missing_affiliation_non_academic_not_company [OF h2 h4 h3]
  show ?thesis
    using example_paper_row by simp
qed

text \<open>
  In the record below the contributor with the affiliation
  "Dept. of Chemistry, ABC Biotech Inc." stands before one whose affiliation is \<open>null\<close>:
  the classifier raises \<open>TypeError\<close> and fills no column.
\<close>

theorem biotech_affiliation_no_row:
  "dict_get (JObj [(''authors'', JArr
       [JObj [(''name'', JStr ''Smith J''),
              (''affiliation'', JStr ''Dept. of Chemistry, ABC Biotech Inc.'')],
        JObj [(''name'', JStr ''Roe B''), (''affiliation'', JNull)]])])
     ''authors'' (JArr []) =
     Inr (JArr ([] @ JObj [(''name'', JStr ''Smith J''),
                           (''affiliation'', JStr ''Dept. of Chemistry, ABC Biotech Inc.'')] #
                [JObj [(''name'', JStr ''Roe B''), (''affiliation'', JNull)]])) \<and>
   extract_paper_data
     (JObj [(''authors'', JArr
       [JObj [(''name'', JStr ''Smith J''),
              (''affiliation'', JStr ''Dept. of Chemistry, ABC Biotech Inc.'')],
        JObj [(''name'', JStr ''Roe B''), (''affiliation'', JNull)]])]) =
     Inl TypeError"
  by (simp add: classify_simps)

text \<open>
  C7, as the code has it: for every record whose contributor entries are dictionaries with
  a name that is a string and an affiliation that is a string or is missing, the
  classifier returns a row, and a contributor with the affiliation
  "Dept. of Chemistry, ABC Biotech Inc." has its name in the non-academic column and its
  whole affiliation in the company column, each at the place of the contributor.
\<close>

theorem biotech_affiliation_company_and_non_academic:
  assumes "dict_get paper ''authors'' (JArr []) = Inr (JArr (before @ JObj a # after))"
    and "list_all named_contributor (before @ JObj a # after)"
    and "map_of a ''affiliation'' = Some (JStr ''Dept. of Chemistry, ABC Biotech Inc.'')"
  shows "\<exists>r n nb na cb ca.
           extract_paper_data paper = Inr r \<and>
           map_of a ''name'' = Some (JStr n) \<and>
           non_academic_authors before = Inr (map JStr nb) \<and>
           non_academic_authors after = Inr (map JStr na) \<and>
           Non_academic_Authors r = join '', '' (nb @ n # na) \<and>
           company_affiliations before = Inr (map JStr cb) \<and>
           company_affiliations after = Inr (map JStr ca) \<and>
           Company_Affiliations r =
             join '', '' (cb @ ''Dept. of Chemistry, ABC Biotech Inc.'' # ca)"
proof -
  from assms(1,2) obtain r where r: "extract_paper_data paper = Inr r"
    using extract_paper_data_returns_row by blast
  have aff: "dict_get (JObj a) ''affiliation'' (JStr '''') =
      Inr (JStr ''Dept. of Chemistry, ABC Biotech Inc.'')"
    using assms(3) by simp
  have m: "\<not> matches_any academic_pattern ''Dept. of Chemistry, ABC Biotech Inc.''"
    "matches_any company_pattern ''Dept. of Chemistry, ABC Biotech Inc.''"
    by (simp_all add: matches_any_def academic_pattern_def company_pattern_def lower_char_def)
  from r assms(1) aff show ?thesis
    by (rule contributor_columns) (use m r in blast)
qed

theorem biotech_affiliation_company_and_non_academic_witness:
  "extract_paper_data example_paper = Inr example_row \<and>
   (\<exists>n nb na cb ca.
      map_of [(''name'', JStr ''Smith J''),
              (''affiliation'', JStr ''Dept. of Chemistry, ABC Biotech Inc.'')] ''name''
        = Some (JStr n) \<and>
      non_academic_authors
        [JObj [(''name'', JStr ''Rao P''), (''affiliation'', JStr ''Acme Pharma Ltd'')]]
        = Inr (map JStr nb) \<and>
      non_academic_authors
        [JObj [(''name'', JStr ''Lee K''), (''affiliation'', JStr ''Stanford University'')],
         JObj [(''name'', JStr ''Doe A'')]]
        = Inr (map JStr na) \<and>
      Non_academic_Authors example_row = join '', '' (nb @ n # na) \<and>
      company_affiliations
        [JObj [(''name'', JStr ''Rao P''), (''affiliation'', JStr ''Acme Pharma Ltd'')]]
        = Inr (map JStr cb) \<and>
      company_affiliations
        [JObj [(''name'', JStr ''Lee K''), (''affiliation'', JStr ''Stanford University'')],
         JObj [(''name'', JStr ''Doe A'')]]
        = Inr (map JStr ca) \<and>
      Company_Affiliations example_row =
        join '', '' (cb @ ''Dept. of Chemistry, ABC Biotech Inc.'' # ca))"
proof -
  have h2: "dict_get example_paper ''authors'' (JArr []) = Inr (JArr
     ([JObj [(''name'', JStr ''Rao P''), (''affiliation'', JStr ''Acme Pharma Ltd'')]]
      @ JObj [(''name'', JStr ''Smith J''),
              (''affiliation'', JStr ''Dept. of Chemistry, ABC Biotech Inc.'')]
      # [JObj [(''name'', JStr ''Lee K''), (''affiliation'', JStr ''Stanford University'')],
         JObj [(''name'', JStr ''Doe A'')]]))"
    by (simp add: example_paper_def)
  have h3: "map_of [(''name'', JStr ''Smith J''),
              (''affiliation'', JStr ''Dept. of Chemistry, ABC Biotech Inc.'')] ''affiliation''
            = Some (JStr ''Dept. of Chemistry, ABC Biotech Inc.'')"
    by simp
  have h4: "list_all named_contributor
     ([JObj [(''name'', JStr ''Rao P''), (''affiliation'', JStr ''Acme Pharma Ltd'')]]
      @ JObj [(''name'', JStr ''Smith J''),
              (''affiliation'', JStr ''Dept. of Chemistry, ABC Biotech Inc.'')]
      # [JObj [(''name'', JStr ''Lee K''), (''affiliation'', JStr ''Stanford University'')],
         JObj [(''name'', JStr ''Doe A'')]])"
    by simp
  from biotech_affiliation_company_and_non_academic [OF h2 h4 h3]
  show ?thesis
    using example_paper_row by simp
qed

text \<open>
  C8: when the classifier returns a row for a record, a contributor with the affiliation
  "Stanford University" adds nothing to either column: both are made of what the
  contributors before and after give.
\<close>

theorem university_affiliation_excluded:
  assumes "extract_paper_data paper = Inr r"
    and "dict_get paper ''authors'' (JArr []) = Inr (JArr (before @ JObj a # after))"
    and "map_of a ''affiliation'' = Some (JStr ''Stanford University'')"
  shows "\<exists>nb na cb ca.
           non_academic_authors before = Inr (map JStr nb) \<and>
           non_academic_authors after = Inr (map JStr na) \<and>
           Non_academic_Authors r = join '', '' (nb @ na) \<and>
           company_affiliations before = Inr (map JStr cb) \<and>
           company_affiliations after = Inr (map JStr ca) \<and>
           Company_Affiliations r = join '', '' (cb @ ca)"
proof -
  have aff: "dict_get (JObj a) ''affiliation'' (JStr '''') = Inr (JStr ''Stanford University'')"
    using assms(3) by simp
  have m: "matches_any academic_pattern ''Stanford University''"
    "\<not> matches_any company_pattern ''Stanford University''"
    by (simp_all add: matches_any_def academic_pattern_def company_pattern_def lower_char_def)
  from assms(1,2) aff show ?thesis
    by (rule contributor_columns) (use m in blast)
qed

theorem university_affiliation_excluded_witness:
  "extract_paper_data example_paper = Inr example_row \<and>
   (\<exists>nb na cb ca.
      non_academic_authors
        [JObj [(''name'', JStr ''Rao P''), (''affiliation'', JStr ''Acme Pharma Ltd'')],
         JObj [(''name'', JStr ''Smith J''),
               (''affiliation'', JStr ''Dept. of Chemistry, ABC Biotech Inc.'')]]
        = Inr (map JStr nb) \<and>
      non_academic_authors [JObj [(''name'', JStr ''Doe A'')]] = Inr (map JStr na) \<and>
      Non_academic_Authors example_row = join '', '' (nb @ na) \<and>
      company_affiliations
        [JObj [(''name'', JStr ''Rao P''), (''affiliation'', JStr ''Acme Pharma Ltd'')],
         JObj [(''name'', JStr ''Smith J''),
               (''affiliation'', JStr ''Dept. of Chemistry, ABC Biotech Inc.'')]]
        = Inr (map JStr cb) \<and>
      company_affiliations [JObj [(''name'', JStr ''Doe A'')]] = Inr (map JStr ca) \<and>
      Company_Affiliations example_row = join '', '' (cb @ ca))"
proof -
  have h2: "dict_get example_paper ''authors'' (JArr []) = Inr (JArr
     ([JObj [(''name'', JStr ''Rao P''), (''affiliation'', JStr ''Acme Pharma Ltd'')],
       JObj [(''name'', JStr ''Smith J''),
             (''affiliation'', JStr ''Dept. of Chemistry, ABC Biotech Inc.'')]]
      @ JObj [(''name'', JStr ''Lee K''), (''affiliation'', JStr ''Stanford University'')]
      # [JObj [(''name'', JStr ''Doe A'')]]))"
    by (simp add: example_paper_def)
  have h3: "map_of [(''name'', JStr ''Lee K''), (''affiliation'', JStr ''Stanford University'')]
              ''affiliation'' = Some (JStr ''Stanford University'')"
    by simp
  from university_affiliation_excluded [OF example_paper_row h2 h3]
  show ?thesis
    using example_paper_row by simp
qed

subsection \<open>C9, C10: failures\<close>

text \<open>
  C9: when the search step raises, or the detail fetch raises, or the table writer raises
  (the file cannot be opened, a line cannot be written, the file cannot be closed, or
  there is no destination), \<open>main\<close> returns, the run has logged one error message more than
  before, the exception raised, it has printed nothing, and every file other than the
  destination is as it was.
\<close>

theorem failures_caught_and_logged_once:
  assumes "fst (fetch_pubmed_ids env (query a) w) = Inl e \<or>
     (\<exists>pubmed_ids. fst (fetch_pubmed_ids env (query a) w) = Inr pubmed_ids \<and>
        fst (fetch_paper_details env pubmed_ids w) = Inl e) \<or>
     (\<exists>pubmed_ids paper_details ids extracted_data.
        fst (fetch_pubmed_ids env (query a) w) = Inr pubmed_ids \<and>
        fst (fetch_paper_details env pubmed_ids w) = Inr paper_details \<and>
        str_items pubmed_ids = Inr ids \<and> extracted ids paper_details = Inr extracted_data \<and>
        fst (save_to_csv env extracted_data (file_opt a) w) = Inl e)"
  shows "fst (main env a w) = None \<and>
         filter is_Error (log (snd (main env a w))) = filter is_Error (log w) @ [Error e] \<and>
         stdout (snd (main env a w)) = stdout w \<and>
         (\<forall>f'. file_opt a \<noteq> Some f' \<longrightarrow> files (snd (main env a w)) f' = files w f')"
  using assms
proof (elim disjE exE conjE)
  assume "fst (fetch_pubmed_ids env (query a) w) = Inl e"
  then show ?thesis by (simp add: main_search_fails)
next
  fix pubmed_ids
  assume "fst (fetch_pubmed_ids env (query a) w) = Inr pubmed_ids"
    and "fst (fetch_paper_details env pubmed_ids w) = Inl e"
  then show ?thesis by (simp add: main_fetch_fails)
next
  fix pubmed_ids paper_details ids extracted_data
  assume "fst (fetch_pubmed_ids env (query a) w) = Inr pubmed_ids"
    and "fst (fetch_paper_details env pubmed_ids w) = Inr paper_details"
    and "str_items pubmed_ids = Inr ids" and "extracted ids paper_details = Inr extracted_data"
    and "fst (save_to_csv env extracted_data (file_opt a) w) = Inl e"
  then show ?thesis by (simp add: main_save_fails save_to_csv_other_files)
qed

theorem failures_caught_and_logged_once_witness:
  "fst (fetch_pubmed_ids env_offline (query example_args) empty_world) = Inl RequestException \<and>
   fst (main env_offline example_args empty_world) = None \<and>
   filter is_Error (log (snd (main env_offline example_args empty_world))) =
     [Error RequestException] \<and>
   fst (fetch_paper_details env_summary_unavailable (JArr [JStr ''31452104'']) empty_world) =
     Inl (HTTPError 503) \<and>
   fst (main env_summary_unavailable example_args empty_world) = None \<and>
   filter is_Error (log (snd (main env_summary_unavailable example_args empty_world))) =
     [Error (HTTPError 503)] \<and>
   fst (save_to_csv env_read_only [example_row] (file_opt example_args) empty_world) =
     Inl OSError \<and>
   fst (main env_read_only example_args empty_world) = None \<and>
   filter is_Error (log (snd (main env_read_only example_args empty_world))) = [Error OSError] \<and>
   fst (save_to_csv env_unencodable [example_row] (file_opt example_args) empty_world) =
     Inl UnicodeEncodeError \<and>
   fst (main env_unencodable example_args empty_world) = None \<and>
   filter is_Error (log (snd (main env_unencodable example_args empty_world))) =
     [Error UnicodeEncodeError] \<and>
   stdout (snd (main env_unencodable example_args empty_world)) = []"
proof -
  have s1: "fst (fetch_pubmed_ids env_offline (query example_args) empty_world) =
      Inl RequestException"
    by (simp add: request_simps env_offline_def)
  have s2: "fst (fetch_pubmed_ids env_summary_unavailable (query example_args) empty_world) =
      Inr (JArr [JStr ''31452104''])"
    by (simp add: request_simps env_summary_unavailable_def)
  have d2: "fst (fetch_paper_details env_summary_unavailable (JArr [JStr ''31452104''])
              empty_world) = Inl (HTTPError 503)"
    by (simp add: request_simps env_summary_unavailable_def)
  have s3: "fst (fetch_pubmed_ids env_read_only (query example_args) empty_world) =
      Inr (JArr [JStr ''31452104'', JStr ''99999999''])"
    by (simp add: request_simps env_read_only_def example_env_def)
  have d3: "fst (fetch_paper_details env_read_only
                   (JArr [JStr ''31452104'', JStr ''99999999'']) empty_world) =
     Inr (JObj [(''uids'', JArr [JStr ''31452104'']), (''31452104'', example_paper)])"
    by (simp add: request_simps env_read_only_def example_env_def)
  have w3: "fst (save_to_csv env_read_only [example_row] (file_opt example_args) empty_world) =
     Inl OSError"
    by (simp add: save_to_csv_cannot_open example_args_def env_read_only_def example_env_def)
  have s4: "fst (fetch_pubmed_ids env_unencodable (query example_args) empty_world) =
      Inr (JArr [JStr ''31452104'', JStr ''99999999''])"
    by (simp add: request_simps env_unencodable_def example_env_def)
  have d4: "fst (fetch_paper_details env_unencodable
                   (JArr [JStr ''31452104'', JStr ''99999999'']) empty_world) =
     Inr (JObj [(''uids'', JArr [JStr ''31452104'']), (''31452104'', example_paper)])"
    by (simp add: request_simps env_unencodable_def example_env_def)
  have w4: "fst (save_to_csv env_unencodable [example_row] (file_opt example_args)
                   empty_world) = Inl UnicodeEncodeError"
    by (simp add: save_to_csv_opened example_args_def env_unencodable_def example_env_def
                  close_file_def write_line_def and_then_io_def content_def)
  have c1: "fst (main env_offline example_args empty_world) = None \<and>
     filter is_Error (log (snd (main env_offline example_args empty_world))) =
       filter is_Error (log empty_world) @ [Error RequestException] \<and>
     stdout (snd (main env_offline example_args empty_world)) = stdout empty_world \<and>
     (\<forall>f'. file_opt example_args \<noteq> Some f' \<longrightarrow>
        files (snd (main env_offline example_args empty_world)) f' = files empty_world f')"
    by (rule failures_caught_and_logged_once) (use s1 in blast)
  have c2: "fst (main env_summary_unavailable example_args empty_world) = None \<and>
     filter is_Error (log (snd (main env_summary_unavailable example_args empty_world))) =
       filter is_Error (log empty_world) @ [Error (HTTPError 503)] \<and>
     stdout (snd (main env_summary_unavailable example_args empty_world)) = stdout empty_world \<and>
     (\<forall>f'. file_opt example_args \<noteq> Some f' \<longrightarrow>
        files (snd (main env_summary_unavailable example_args empty_world)) f' = files empty_world f')"
    by (rule failures_caught_and_logged_once) (use s2 d2 in blast)
  have c3: "fst (main env_read_only example_args empty_world) = None \<and>
     filter is_Error (log (snd (main env_read_only example_args empty_world))) =
       filter is_Error (log empty_world) @ [Error OSError] \<and>
     stdout (snd (main env_read_only example_args empty_world)) = stdout empty_world \<and>
     (\<forall>f'. file_opt example_args \<noteq> Some f' \<longrightarrow>
        files (snd (main env_read_only example_args empty_world)) f' = files empty_world f')"
    by (rule failures_caught_and_logged_once)
       (use s3 d3 example_items example_extracted w3 in blast)
  have c4: "fst (main env_unencodable example_args empty_world) = None \<and>
     filter is_Error (log (snd (main env_unencodable example_args empty_world))) =
       filter is_Error (log empty_world) @ [Error UnicodeEncodeError] \<and>
     stdout (snd (main env_unencodable example_args empty_world)) = stdout empty_world \<and>
     (\<forall>f'. file_opt example_args \<noteq> Some f' \<longrightarrow>
        files (snd (main env_unencodable example_args empty_world)) f' = files empty_world f')"
    by (rule failures_caught_and_logged_once)
       (use s4 d4 example_items example_extracted w4 in blast)
  show ?thesis
    using s1 d2 w3 w4 c1 c2 c3 c4 by (simp add: empty_world_def)
qed

text \<open>After a failure of the writer the destination may hold a part of the table: with the
  server \<open>env_unencodable\<close> it holds the header.\<close>

lemma unencodable_rows_leave_header:
  "files (snd (main env_unencodable example_args empty_world)) ''papers.csv'' =
     Some [Header fieldnames] \<and>
   log (snd (main env_unencodable example_args empty_world)) = [Error UnicodeEncodeError]"
proof -
  have s: "fst (fetch_pubmed_ids env_unencodable (query example_args) empty_world) =
      Inr (JArr [JStr ''31452104'', JStr ''99999999''])"
    by (simp add: request_simps env_unencodable_def example_env_def)
  have d: "fst (fetch_paper_details env_unencodable
                   (JArr [JStr ''31452104'', JStr ''99999999'']) empty_world) =
     Inr (JObj [(''uids'', JArr [JStr ''31452104'']), (''31452104'', example_paper)])"
    by (simp add: request_simps env_unencodable_def example_env_def)
  have o: "file_opt example_args = Some ''papers.csv''" "''papers.csv'' \<noteq> []"
    "open_for_writing env_unencodable ''papers.csv''"
    by (simp_all add: example_args_def env_unencodable_def example_env_def)
  have w: "save_to_csv env_unencodable [example_row] (Some ''papers.csv'') w0 =
      (Inl UnicodeEncodeError, w0\<lparr>files := (files w0)(''papers.csv'' \<mapsto> [Header fieldnames])\<rparr>)"
    for w0
    unfolding save_to_csv_opened [OF o(2,3)]
    by (simp add: env_unencodable_def example_env_def close_file_def write_line_def
                  and_then_io_def content_def)
  have l: "log (after_search env_unencodable example_args
                  (JArr [JStr ''31452104'', JStr ''99999999'']) empty_world) = []"
    by (simp add: logging_debug_def configure_logging_def example_args_def empty_world_def)
  have m: "main env_unencodable example_args empty_world =
     (None, logging_error UnicodeEncodeError
        ((after_fetch env_unencodable example_args
            (JArr [JStr ''31452104'', JStr ''99999999'']) empty_world)
         \<lparr>files := (files (after_fetch env_unencodable example_args
            (JArr [JStr ''31452104'', JStr ''99999999'']) empty_world))
            (''papers.csv'' \<mapsto> [Header fieldnames])\<rparr>))"
    by (simp add: main_save [OF s d example_items example_extracted] o(1) w)
  show ?thesis by (simp add: m l)
qed

text \<open>
  C10: \<open>main\<close> returns in every run, whether the \<open>try\<close> block ends or raises, so the
  status of the process is 0 in both.
\<close>

theorem main_always_returns_exit_status_zero:
  "fst (main env a w) = None \<and> exit_status (fst (main env a w)) = 0"
  by (simp add: main_returns)

end
